theory Spec2Isabelle
  imports Main
begin

text \<open>
  The loop engine of gumloop: the command builder, the output adapters, the change
  detector, the process supervisor (\<^verbatim>\<open>RunIteration\<close>) and the loop controller
  (\<^verbatim>\<open>Runner.Run\<close>). Go strings are byte sequences and are modelled as \<^typ>\<open>string\<close>,
  one \<^typ>\<open>char\<close> per byte. A Go \<^verbatim>\<open>error\<close> is modelled by its message, and a
  function returning \<^verbatim>\<open>(T, error)\<close> by a sum \<open>error + T\<close> when the value is unused on
  failure, and by a pair with an optional error when both are returned.
\<close>

type_synonym error = string

section \<open>Command Builder (internal/agent)\<close>

text \<open>
  \<^verbatim>\<open>type PromptStyle string\<close> stays a string, with the four declared constants.
\<close>

type_synonym PromptStyle = string

definition PromptStyleArg :: PromptStyle where
  "PromptStyleArg = ''arg''"

definition PromptStylePipe :: PromptStyle where
  "PromptStylePipe = ''pipe''"

definition PromptStyleStream :: PromptStyle where
  "PromptStyleStream = ''stream''"

definition PromptStyleOllama :: PromptStyle where
  "PromptStyleOllama = ''ollama''"

record Agent =
  ID :: string
  Name :: string
  Command :: string
  CheckCommand :: string
  AutonomousFlags :: "string list"
  InteractiveFlags :: "string list"
  ModelFlag :: string
  PromptStyle :: PromptStyle

subsection \<open>\<^verbatim>\<open>strings.Fields\<close>\<close>

text \<open>
  \<^verbatim>\<open>strings.Fields\<close> belongs to the Go standard library. It splits its argument around
  every maximal run of white space, as \<^verbatim>\<open>unicode.IsSpace\<close> defines it, and returns the
  non-empty pieces. The white-space runes are listed here by their UTF-8 encodings:
  the six ASCII ones, U+0085, U+00A0, U+1680, U+2000 to U+200A, U+2028, U+2029, U+202F,
  U+205F and U+3000. None of the leading bytes is a continuation byte, so every
  occurrence of one of these byte sequences is decoded as that rune.
\<close>

definition spaceRunes :: "string list" where
  "spaceRunes =
     [[CHR 0x09], [CHR 0x0A], [CHR 0x0B], [CHR 0x0C], [CHR 0x0D], [CHR 0x20],
      [CHR 0xC2, CHR 0x85], [CHR 0xC2, CHR 0xA0],
      [CHR 0xE1, CHR 0x9A, CHR 0x80],
      [CHR 0xE2, CHR 0x80, CHR 0x80], [CHR 0xE2, CHR 0x80, CHR 0x81],
      [CHR 0xE2, CHR 0x80, CHR 0x82], [CHR 0xE2, CHR 0x80, CHR 0x83],
      [CHR 0xE2, CHR 0x80, CHR 0x84], [CHR 0xE2, CHR 0x80, CHR 0x85],
      [CHR 0xE2, CHR 0x80, CHR 0x86], [CHR 0xE2, CHR 0x80, CHR 0x87],
      [CHR 0xE2, CHR 0x80, CHR 0x88], [CHR 0xE2, CHR 0x80, CHR 0x89],
      [CHR 0xE2, CHR 0x80, CHR 0x8A],
      [CHR 0xE2, CHR 0x80, CHR 0xA8], [CHR 0xE2, CHR 0x80, CHR 0xA9],
      [CHR 0xE2, CHR 0x80, CHR 0xAF], [CHR 0xE2, CHR 0x81, CHR 0x9F],
      [CHR 0xE3, CHR 0x80, CHR 0x80]]"

definition spaceWidth :: "string \<Rightarrow> nat" where
  \<comment> \<open>the number of bytes of the white-space rune at the front of the string, 0 if there is none\<close>
  "spaceWidth s =
     (case find (\<lambda>p. take (length p) s = p) spaceRunes of
        None \<Rightarrow> 0
      | Some p \<Rightarrow> length p)"

fun FieldsFrom :: "string \<Rightarrow> string \<Rightarrow> string list" where
  "FieldsFrom cur [] = (if cur = [] then [] else [cur])"
| "FieldsFrom cur (c # cs) =
     (if spaceWidth (c # cs) = 0 then FieldsFrom (cur @ [c]) cs
      else (if cur = [] then [] else [cur]) @ FieldsFrom [] (drop (spaceWidth (c # cs) - 1) cs))"

definition Fields :: "string \<Rightarrow> string list" where
  "Fields s = FieldsFrom [] s"

subsection \<open>\<^verbatim>\<open>Agent.BuildCommand\<close>\<close>

definition BuildCommand :: "Agent \<Rightarrow> string \<Rightarrow> string \<Rightarrow> bool \<Rightarrow> string list" where
  "BuildCommand a prompt model autonomous =
     (let cmdParts = Fields (Command a);
          args = cmdParts;
          flags = (if autonomous then AutonomousFlags a else InteractiveFlags a);
          args = args @ flags;
          args = (if model \<noteq> [] \<and> ModelFlag a \<noteq> [] then args @ [ModelFlag a, model] else args)
      in if PromptStyle a = PromptStyleOllama then
           (let args = (if model \<noteq> [] then args @ [model] else args)
            in args @ [prompt])
         else if PromptStyle a = PromptStyleArg \<or> PromptStyle a = PromptStyleStream then
           args @ [prompt]
         else if PromptStyle a = PromptStylePipe then
           args
         else args)"

subsection \<open>The registered profiles\<close>

definition claude :: Agent where
  "claude = \<lparr>ID = ''claude'', Name = ''Claude Code'', Command = ''claude'',
     CheckCommand = ''claude'',
     AutonomousFlags = [''-p'', ''--dangerously-skip-permissions'', ''--verbose'',
                        ''--output-format'', ''stream-json''],
     InteractiveFlags = [''-p'', ''--verbose'', ''--output-format'', ''stream-json''],
     ModelFlag = ''--model'', PromptStyle = PromptStyleStream\<rparr>"

definition codex :: Agent where
  "codex = \<lparr>ID = ''codex'', Name = ''OpenAI Codex'', Command = ''codex exec'',
     CheckCommand = ''codex'',
     AutonomousFlags = [''--full-auto'', ''--json''],
     InteractiveFlags = [''--json''],
     ModelFlag = ''--model'', PromptStyle = PromptStyleArg\<rparr>"

definition gemini :: Agent where
  "gemini = \<lparr>ID = ''gemini'', Name = ''Google Gemini'', Command = ''gemini'',
     CheckCommand = ''gemini'',
     AutonomousFlags = [''-p'', ''--yolo'', ''--output-format'', ''text''],
     InteractiveFlags = [''-p'', ''--output-format'', ''text''],
     ModelFlag = ''--model'', PromptStyle = PromptStyleArg\<rparr>"

definition ollama :: Agent where
  "ollama = \<lparr>ID = ''ollama'', Name = ''Ollama'', Command = ''ollama run'',
     CheckCommand = ''ollama'',
     AutonomousFlags = [], InteractiveFlags = [],
     ModelFlag = [], PromptStyle = PromptStyleOllama\<rparr>"

text \<open>
  No registered profile uses the stdin-pipe style; \<open>pipeAgent\<close> is a profile of that
  style, as a caller of \<^verbatim>\<open>RegisterAgent\<close> may add one.
\<close>

definition pipeAgent :: Agent where
  "pipeAgent = \<lparr>ID = ''piped'', Name = ''Piped Agent'', Command = ''agent  chat'',
     CheckCommand = ''agent'',
     AutonomousFlags = [''--yes''], InteractiveFlags = [],
     ModelFlag = ''-m'', PromptStyle = PromptStylePipe\<rparr>"

section \<open>Output adapters (internal/adapter)\<close>

subsection \<open>Events\<close>

text \<open>
  The three event structs implementing the interface \<^verbatim>\<open>Event\<close>. \<open>ToolUse\<close> carries the
  fields \<^verbatim>\<open>Name\<close> and \<^verbatim>\<open>Input\<close>; the adapters leave \<^verbatim>\<open>Input\<close> empty.
\<close>

datatype Event = ToolUse string string | AssistantMessage string | Error string

subsection \<open>\<^verbatim>\<open>bufio.Scanner\<close>\<close>

text \<open>
  An \<^verbatim>\<open>io.Reader\<close> is modelled by the bytes it delivers and the error that ends it
  (\<open>None\<close> for \<^verbatim>\<open>io.EOF\<close>). \<^verbatim>\<open>bufio.NewScanner\<close> belongs to the Go standard library:
  it splits with \<^verbatim>\<open>ScanLines\<close> (a line ends at a newline, one trailing carriage return is
  dropped, a last line without newline is delivered when it is not empty), and it stops
  with \<^verbatim>\<open>ErrTooLong\<close> once \<^verbatim>\<open>MaxScanTokenSize\<close> bytes are buffered without a newline.
  On a read error the bytes read so far are still split, as at the end of the input.
  \<open>Scanner\<close> gives the lines that successive calls of \<^verbatim>\<open>Scan\<close> deliver, and the value
  of \<^verbatim>\<open>Err\<close> afterwards.
\<close>

record Reader =
  data :: string
  readErr :: "error option"

definition MaxScanTokenSize :: nat where
  "MaxScanTokenSize = 64 * 1024"

definition ErrTooLong :: error where
  "ErrTooLong = ''bufio.Scanner: token too long''"

definition dropCR :: "string \<Rightarrow> string" where
  "dropCR d = (if d \<noteq> [] \<and> last d = CHR 0x0D then butlast d else d)"

fun ScanLinesFrom :: "string \<Rightarrow> string \<Rightarrow> string list \<times> error option" where
  "ScanLinesFrom cur [] = ((if cur = [] then [] else [dropCR cur]), None)"
| "ScanLinesFrom cur (c # cs) =
     (if c = CHR 0x0A then
        (case ScanLinesFrom [] cs of (tokens, err) \<Rightarrow> (dropCR cur # tokens, err))
      else if MaxScanTokenSize \<le> length cur + 1 then ([], Some ErrTooLong)
      else ScanLinesFrom (cur @ [c]) cs)"

definition Scanner :: "Reader \<Rightarrow> string list \<times> error option" where
  "Scanner r =
     (case ScanLinesFrom [] (data r) of
        (tokens, Some e) \<Rightarrow> (tokens, Some e)
      | (tokens, None) \<Rightarrow> (tokens, readErr r))"

definition MultiReader :: "Reader \<Rightarrow> Reader \<Rightarrow> Reader" where
  \<comment> \<open>\<^verbatim>\<open>io.MultiReader(a, b)\<close>: all of \<open>a\<close>, then \<open>b\<close>\<close>
  "MultiReader a b =
     (case readErr a of
        Some e \<Rightarrow> a
      | None \<Rightarrow> \<lparr>data = data a @ data b, readErr = readErr b\<rparr>)"

subsection \<open>\<^verbatim>\<open>PassThroughAdapter\<close>\<close>

text \<open>
  The event channel is modelled by the list of events sent to it, in order. Each
  \<^verbatim>\<open>Process\<close> returns that list and its error.
\<close>

fun PassThroughLoop :: "string list \<Rightarrow> Event list" where
  "PassThroughLoop [] = []"
| "PassThroughLoop (line # rest) = AssistantMessage line # PassThroughLoop rest"

definition PassThroughAdapter_Process :: "Reader \<Rightarrow> Event list \<times> error option" where
  "PassThroughAdapter_Process reader =
     (case Scanner reader of (lines, err) \<Rightarrow> (PassThroughLoop lines, err))"

subsection \<open>\<^verbatim>\<open>encoding/json\<close>\<close>

text \<open>
  \<^verbatim>\<open>json.Unmarshal\<close> belongs to the Go standard library. It first checks that the whole
  input is one JSON value (RFC 8259, nested at most \<open>maxNestingDepth\<close> deep), then
  decodes it into the addressed struct. The model follows its documentation:
  \<^item> a string literal is unquoted: escapes are replaced, unicode escapes are encoded in
    UTF-8 (a surrogate pair gives one rune, a lone surrogate U+FFFD), and every byte
    that is not part of a well-formed UTF-8 sequence is replaced by U+FFFD;
  \<^item> an object key selects the struct field whose tag equals it, or equals it under
    case folding (which also folds U+017F to S and U+212A to K); other keys are skipped;
  \<^item> \<^verbatim>\<open>null\<close> leaves a string or a struct as it is and sets a slice to \<^verbatim>\<open>nil\<close>; a later
    occurrence of a key is decoded into what the earlier one left in the field;
  \<^item> an array is decoded into the slice that the field holds: element \<open>i\<close> is decoded
    into the element that the backing array already has at index \<open>i\<close> (also between
    the length and the capacity of the slice: \<^verbatim>\<open>SetLen\<close> does not clear), and into a
    zero element beyond the capacity; an empty array gives a new empty slice;
  \<^item> a value of the wrong kind for its field (or for the struct itself) is an
    \<^verbatim>\<open>UnmarshalTypeError\<close>.
  Both adapters drop the decoded struct when \<^verbatim>\<open>Unmarshal\<close> returns any error, so the
  decoders return \<open>None\<close> for every error.
\<close>

datatype json =
    JNull | JBool bool | JNumber string | JString string
  | JArray "json list" | JObject "(string \<times> json) list"

datatype token =
    TBeginObject | TEndObject | TBeginArray | TEndArray | TColon | TComma
  | TString string | TNumber string | TLiteral json

text \<open>
  Unquoting a string literal (\<^verbatim>\<open>unquoteBytes\<close>): \<open>getu4\<close> reads a unicode escape,
  \<open>EncodeRune\<close> is \<^verbatim>\<open>utf8.EncodeRune\<close>, and \<open>runeWidth\<close> is the width that
  \<^verbatim>\<open>utf8.DecodeRune\<close> reports for a well-formed sequence (0 where it reports an error).
  A quote or a control character inside the literal, and an escape that JSON does not
  have, make the input invalid.
\<close>

definition byte :: "char \<Rightarrow> nat" where
  "byte c = of_char c"

definition hexVal :: "char \<Rightarrow> nat option" where
  "hexVal c =
     (if 0x30 \<le> byte c \<and> byte c \<le> 0x39 then Some (byte c - 0x30)
      else if 0x61 \<le> byte c \<and> byte c \<le> 0x66 then Some (byte c - 0x61 + 10)
      else if 0x41 \<le> byte c \<and> byte c \<le> 0x46 then Some (byte c - 0x41 + 10)
      else None)"

definition getu4 :: "string \<Rightarrow> nat option" where
  "getu4 s =
     (case s of
        b # u # h1 # h2 # h3 # h4 # _ \<Rightarrow>
          if b = CHR 0x5C \<and> u = CHR ''u'' then
            (case (hexVal h1, hexVal h2, hexVal h3, hexVal h4) of
               (Some d1, Some d2, Some d3, Some d4) \<Rightarrow> Some (((d1 * 16 + d2) * 16 + d3) * 16 + d4)
             | _ \<Rightarrow> None)
          else None
      | _ \<Rightarrow> None)"

definition RuneError :: nat where
  "RuneError = 0xFFFD"

definition EncodeRune :: "nat \<Rightarrow> string" where
  "EncodeRune r =
     (if r \<le> 0x7F then [char_of r]
      else if r \<le> 0x7FF then [char_of (0xC0 + r div 64), char_of (0x80 + r mod 64)]
      else if 0x10FFFF < r \<or> (0xD800 \<le> r \<and> r \<le> 0xDFFF) then [CHR 0xEF, CHR 0xBF, CHR 0xBD]
      else if r \<le> 0xFFFF then
        [char_of (0xE0 + r div 4096), char_of (0x80 + (r div 64) mod 64), char_of (0x80 + r mod 64)]
      else
        [char_of (0xF0 + r div 262144), char_of (0x80 + (r div 4096) mod 64),
         char_of (0x80 + (r div 64) mod 64), char_of (0x80 + r mod 64)])"

definition inRange :: "nat \<Rightarrow> nat \<Rightarrow> char \<Rightarrow> bool" where
  "inRange lo hi c = (lo \<le> byte c \<and> byte c \<le> hi)"

definition runeWidth :: "string \<Rightarrow> nat" where
  "runeWidth s =
     (case s of
        [] \<Rightarrow> 0
      | c0 # rest \<Rightarrow>
          if byte c0 < 0x80 then 1
          else if inRange 0xC2 0xDF c0 then
            (case rest of c1 # _ \<Rightarrow> if inRange 0x80 0xBF c1 then 2 else 0 | _ \<Rightarrow> 0)
          else if inRange 0xE0 0xEF c0 then
            (case rest of
               c1 # c2 # _ \<Rightarrow>
                 if inRange (if byte c0 = 0xE0 then 0xA0 else 0x80) (if byte c0 = 0xED then 0x9F else 0xBF) c1
                    \<and> inRange 0x80 0xBF c2
                 then 3 else 0
             | _ \<Rightarrow> 0)
          else if inRange 0xF0 0xF4 c0 then
            (case rest of
               c1 # c2 # c3 # _ \<Rightarrow>
                 if inRange (if byte c0 = 0xF0 then 0x90 else 0x80) (if byte c0 = 0xF4 then 0x8F else 0xBF) c1
                    \<and> inRange 0x80 0xBF c2 \<and> inRange 0x80 0xBF c3
                 then 4 else 0
             | _ \<Rightarrow> 0)
          else 0)"

definition escapeChar :: "char \<Rightarrow> char option" where
  "escapeChar e =
     (if e = CHR 0x22 \<or> e = CHR 0x5C \<or> e = CHR ''/'' then Some e
      else if e = CHR ''b'' then Some (CHR 0x08)
      else if e = CHR ''f'' then Some (CHR 0x0C)
      else if e = CHR ''n'' then Some (CHR 0x0A)
      else if e = CHR ''r'' then Some (CHR 0x0D)
      else if e = CHR ''t'' then Some (CHR 0x09)
      else None)"

fun unquoteFrom :: "string \<Rightarrow> string \<Rightarrow> string option" where
  "unquoteFrom out [] = Some out"
| "unquoteFrom out (c # cs) =
     (if c = CHR 0x22 \<or> byte c < 0x20 then None
      else if c = CHR 0x5C then
        (case cs of
           [] \<Rightarrow> None
         | e # es \<Rightarrow>
             if e = CHR ''u'' then
               (case getu4 (c # cs) of
                  None \<Rightarrow> None
                | Some rr \<Rightarrow>
                    if 0xD800 \<le> rr \<and> rr < 0xE000 then
                      (case getu4 (drop 5 cs) of
                         Some rr1 \<Rightarrow>
                           if rr < 0xDC00 \<and> 0xDC00 \<le> rr1 \<and> rr1 < 0xE000 then
                             unquoteFrom
                               (out @ EncodeRune ((rr - 0xD800) * 1024 + (rr1 - 0xDC00) + 0x10000))
                               (drop 11 cs)
                           else unquoteFrom (out @ EncodeRune RuneError) (drop 5 cs)
                       | None \<Rightarrow> unquoteFrom (out @ EncodeRune RuneError) (drop 5 cs))
                    else unquoteFrom (out @ EncodeRune rr) (drop 5 cs))
             else
               (case escapeChar e of
                  None \<Rightarrow> None
                | Some b \<Rightarrow> unquoteFrom (out @ [b]) es))
      else if byte c < 0x80 then unquoteFrom (out @ [c]) cs
      else if runeWidth (c # cs) = 0 then unquoteFrom (out @ EncodeRune RuneError) cs
      else unquoteFrom (out @ take (runeWidth (c # cs)) (c # cs)) (drop (runeWidth (c # cs) - 1) cs))"

definition unquote :: "string \<Rightarrow> string option" where
  "unquote s = unquoteFrom [] s"

text \<open>
  The lexer reads one byte at a time. Its mode says what it is in the middle of: nothing,
  a string literal (with the bytes read so far), the byte after a backslash, a number, or
  one of the words \<^verbatim>\<open>true\<close>, \<^verbatim>\<open>false\<close> and \<^verbatim>\<open>null\<close>. A number or a word ends at the
  first byte that cannot continue it, and must then be well-formed.
\<close>

datatype lexmode = LIdle | LString string | LEscape string | LNumber string | LWord string

definition isSpaceJSON :: "char \<Rightarrow> bool" where
  "isSpaceJSON c = (c = CHR 0x20 \<or> c = CHR 0x09 \<or> c = CHR 0x0D \<or> c = CHR 0x0A)"

definition isDigit :: "char \<Rightarrow> bool" where
  "isDigit c = (0x30 \<le> byte c \<and> byte c \<le> 0x39)"

definition numberChar :: "char \<Rightarrow> bool" where
  "numberChar c = (isDigit c \<or> c = CHR ''-'' \<or> c = CHR ''+'' \<or> c = CHR ''.'' \<or> c = CHR ''e'' \<or> c = CHR ''E'')"

definition wordChar :: "char \<Rightarrow> bool" where
  "wordChar c = (0x61 \<le> byte c \<and> byte c \<le> 0x7A)"

definition validExponent :: "string \<Rightarrow> bool" where
  "validExponent s =
     (case s of
        [] \<Rightarrow> True
      | c # r \<Rightarrow>
          if c = CHR ''e'' \<or> c = CHR ''E'' then
            (let digits = (case r of [] \<Rightarrow> [] | d # r' \<Rightarrow> if d = CHR ''+'' \<or> d = CHR ''-'' then r' else r)
             in digits \<noteq> [] \<and> list_all isDigit digits)
          else False)"

definition validFraction :: "string \<Rightarrow> bool" where
  "validFraction s =
     (case s of
        [] \<Rightarrow> True
      | c # r \<Rightarrow>
          if c = CHR ''.'' then takeWhile isDigit r \<noteq> [] \<and> validExponent (dropWhile isDigit r)
          else validExponent s)"

definition validNumber :: "string \<Rightarrow> bool" where
  "validNumber s =
     (let s1 = (case s of [] \<Rightarrow> [] | c # r \<Rightarrow> if c = CHR ''-'' then r else s)
      in case s1 of
           [] \<Rightarrow> False
         | d # r \<Rightarrow>
             if d = CHR ''0'' then validFraction r
             else if isDigit d then validFraction (dropWhile isDigit r)
             else False)"

definition literal :: "string \<Rightarrow> json option" where
  "literal w =
     (if w = ''true'' then Some (JBool True)
      else if w = ''false'' then Some (JBool False)
      else if w = ''null'' then Some JNull
      else None)"

definition idleStep :: "char \<Rightarrow> (token list \<times> lexmode) option" where
  "idleStep c =
     (if isSpaceJSON c then Some ([], LIdle)
      else if c = CHR ''{'' then Some ([TBeginObject], LIdle)
      else if c = CHR ''}'' then Some ([TEndObject], LIdle)
      else if c = CHR ''['' then Some ([TBeginArray], LIdle)
      else if c = CHR '']'' then Some ([TEndArray], LIdle)
      else if c = CHR '':'' then Some ([TColon], LIdle)
      else if c = CHR '','' then Some ([TComma], LIdle)
      else if c = CHR 0x22 then Some ([], LString [])
      else if c = CHR ''-'' \<or> isDigit c then Some ([], LNumber [c])
      else if wordChar c then Some ([], LWord [c])
      else None)"

fun lexStep :: "lexmode \<Rightarrow> char \<Rightarrow> (token list \<times> lexmode) option" where
  "lexStep LIdle c = idleStep c"
| "lexStep (LString acc) c =
     (if c = CHR 0x22 then
        (case unquote acc of None \<Rightarrow> None | Some s \<Rightarrow> Some ([TString s], LIdle))
      else if c = CHR 0x5C then Some ([], LEscape (acc @ [c]))
      else Some ([], LString (acc @ [c])))"
| "lexStep (LEscape acc) c = Some ([], LString (acc @ [c]))"
| "lexStep (LNumber acc) c =
     (if numberChar c then Some ([], LNumber (acc @ [c]))
      else if validNumber acc then
        (case idleStep c of None \<Rightarrow> None | Some (ts, m) \<Rightarrow> Some (TNumber acc # ts, m))
      else None)"
| "lexStep (LWord acc) c =
     (if wordChar c then Some ([], LWord (acc @ [c]))
      else
        (case literal acc of
           None \<Rightarrow> None
         | Some v \<Rightarrow> (case idleStep c of None \<Rightarrow> None | Some (ts, m) \<Rightarrow> Some (TLiteral v # ts, m))))"

fun lexEnd :: "lexmode \<Rightarrow> token list option" where
  "lexEnd LIdle = Some []"
| "lexEnd (LString acc) = None"
| "lexEnd (LEscape acc) = None"
| "lexEnd (LNumber acc) = (if validNumber acc then Some [TNumber acc] else None)"
| "lexEnd (LWord acc) = (case literal acc of None \<Rightarrow> None | Some v \<Rightarrow> Some [TLiteral v])"

fun lex :: "lexmode \<Rightarrow> string \<Rightarrow> token list option" where
  "lex m [] = lexEnd m"
| "lex m (c # cs) =
     (case lexStep m c of
        None \<Rightarrow> None
      | Some (ts, m') \<Rightarrow> (case lex m' cs of None \<Rightarrow> None | Some rest \<Rightarrow> Some (ts @ rest)))"

text \<open>
  The parser reads the tokens with the states of the scanner of \<^verbatim>\<open>encoding/json\<close> and
  its stack of open objects and arrays; each stack entry also holds the members or
  elements read so far, and an object entry the key whose value is awaited.
\<close>

datatype scanstate =
    stateBeginValue | stateBeginValueOrEmpty | stateBeginStringOrEmpty | stateBeginString
  | stateEndValue | stateEndTop

datatype frame =
    parseObjectKey "(string \<times> json) list" "string option"
  | parseObjectValue "(string \<times> json) list" "string option"
  | parseArrayValue "json list"

definition maxNestingDepth :: nat where
  "maxNestingDepth = 10000"

type_synonym parser = "scanstate \<times> frame list \<times> json option"

definition pushParseState :: "frame \<Rightarrow> scanstate \<Rightarrow> frame list \<Rightarrow> parser option" where
  "pushParseState f st stack =
     (if length (f # stack) \<le> maxNestingDepth then Some (st, f # stack, None) else None)"

definition endValue :: "json \<Rightarrow> frame list \<Rightarrow> parser option" where
  "endValue v stack =
     (case stack of
        [] \<Rightarrow> Some (stateEndTop, [], Some v)
      | parseArrayValue xs # fs \<Rightarrow> Some (stateEndValue, parseArrayValue (xs @ [v]) # fs, None)
      | parseObjectValue ms (Some k) # fs \<Rightarrow>
          Some (stateEndValue, parseObjectValue (ms @ [(k, v)]) None # fs, None)
      | _ \<Rightarrow> None)"

definition beginValue :: "bool \<Rightarrow> frame list \<Rightarrow> token \<Rightarrow> parser option" where
  "beginValue orEmpty stack t =
     (case t of
        TBeginObject \<Rightarrow> pushParseState (parseObjectKey [] None) stateBeginStringOrEmpty stack
      | TBeginArray \<Rightarrow> pushParseState (parseArrayValue []) stateBeginValueOrEmpty stack
      | TString s \<Rightarrow> endValue (JString s) stack
      | TNumber n \<Rightarrow> endValue (JNumber n) stack
      | TLiteral v \<Rightarrow> endValue v stack
      | TEndArray \<Rightarrow>
          (case stack of
             parseArrayValue xs # fs \<Rightarrow> if orEmpty then endValue (JArray xs) fs else None
           | _ \<Rightarrow> None)
      | _ \<Rightarrow> None)"

definition beginString :: "bool \<Rightarrow> frame list \<Rightarrow> token \<Rightarrow> parser option" where
  "beginString orEmpty stack t =
     (case stack of
        parseObjectKey ms None # fs \<Rightarrow>
          (case t of
             TString k \<Rightarrow> Some (stateEndValue, parseObjectKey ms (Some k) # fs, None)
           | TEndObject \<Rightarrow> if orEmpty then endValue (JObject ms) fs else None
           | _ \<Rightarrow> None)
      | _ \<Rightarrow> None)"

definition afterValue :: "frame list \<Rightarrow> token \<Rightarrow> parser option" where
  "afterValue stack t =
     (case stack of
        parseObjectKey ms (Some k) # fs \<Rightarrow>
          (case t of
             TColon \<Rightarrow> Some (stateBeginValue, parseObjectValue ms (Some k) # fs, None)
           | _ \<Rightarrow> None)
      | parseObjectValue ms None # fs \<Rightarrow>
          (case t of
             TComma \<Rightarrow> Some (stateBeginString, parseObjectKey ms None # fs, None)
           | TEndObject \<Rightarrow> endValue (JObject ms) fs
           | _ \<Rightarrow> None)
      | parseArrayValue xs # fs \<Rightarrow>
          (case t of
             TComma \<Rightarrow> Some (stateBeginValue, parseArrayValue xs # fs, None)
           | TEndArray \<Rightarrow> endValue (JArray xs) fs
           | _ \<Rightarrow> None)
      | _ \<Rightarrow> None)"

fun parseStep :: "parser \<Rightarrow> token \<Rightarrow> parser option" where
  "parseStep (stateBeginValue, stack, r) t = beginValue False stack t"
| "parseStep (stateBeginValueOrEmpty, stack, r) t = beginValue True stack t"
| "parseStep (stateBeginString, stack, r) t = beginString False stack t"
| "parseStep (stateBeginStringOrEmpty, stack, r) t = beginString True stack t"
| "parseStep (stateEndValue, stack, r) t = afterValue stack t"
| "parseStep (stateEndTop, stack, r) t = None"

fun parseTokens :: "parser \<Rightarrow> token list \<Rightarrow> json option" where
  "parseTokens (st, stack, r) [] = (if st = stateEndTop then r else None)"
| "parseTokens p (t # ts) =
     (case parseStep p t of None \<Rightarrow> None | Some p' \<Rightarrow> parseTokens p' ts)"

definition parseJSON :: "string \<Rightarrow> json option" where
  "parseJSON s =
     (case lex LIdle s of
        None \<Rightarrow> None
      | Some ts \<Rightarrow> parseTokens (stateBeginValue, [], None) ts)"

text \<open>
  Decoding into a struct. \<open>foldName\<close> folds a key as far as a comparison with the names
  of the fields, which are lower-case ASCII, needs it. A decoder takes the current value
  of its target and returns the new one, or \<open>None\<close> for an \<^verbatim>\<open>UnmarshalTypeError\<close>.
\<close>

fun foldName :: "string \<Rightarrow> string" where
  "foldName [] = []"
| "foldName [c] = [if wordChar c then char_of (byte c - 0x20) else c]"
| "foldName [c, d] =
     (if c = CHR 0xC5 \<and> d = CHR 0xBF then ''S''
      else (if wordChar c then char_of (byte c - 0x20) else c) # foldName [d])"
| "foldName (c # d # e # rest) =
     (if c = CHR 0xC5 \<and> d = CHR 0xBF then CHR ''S'' # foldName (e # rest)
      else if c = CHR 0xE2 \<and> d = CHR 0x84 \<and> e = CHR 0xAA then CHR ''K'' # foldName rest
      else (if wordChar c then char_of (byte c - 0x20) else c) # foldName (d # e # rest))"

definition fieldMatches :: "string \<Rightarrow> string \<Rightarrow> bool" where
  "fieldMatches key name = (key = name \<or> foldName key = foldName name)"

definition decodeString :: "string \<Rightarrow> json \<Rightarrow> string option" where
  "decodeString cur v = (case v of JString s \<Rightarrow> Some s | JNull \<Rightarrow> Some cur | _ \<Rightarrow> None)"

fun decodeObject :: "('a \<Rightarrow> string \<Rightarrow> json \<Rightarrow> 'a option) \<Rightarrow> 'a \<Rightarrow> (string \<times> json) list \<Rightarrow> 'a option" where
  "decodeObject field x [] = Some x"
| "decodeObject field x ((k, v) # ms) =
     (case field x k v of None \<Rightarrow> None | Some x' \<Rightarrow> decodeObject field x' ms)"

definition decodeStruct :: "('a \<Rightarrow> string \<Rightarrow> json \<Rightarrow> 'a option) \<Rightarrow> 'a \<Rightarrow> json \<Rightarrow> 'a option" where
  "decodeStruct field x v =
     (case v of JObject ms \<Rightarrow> decodeObject field x ms | JNull \<Rightarrow> Some x | _ \<Rightarrow> None)"

text \<open>
  A Go slice: \<open>elems\<close> are its elements, \<open>spare\<close> the elements of its backing array
  between its length and its capacity, as far as they are not zero (they are what an
  earlier, longer array left there when the slice was cut back to a shorter one).
  \<open>decodeElements\<close> is the loop of \<^verbatim>\<open>decodeState.array\<close> over the elements of the array,
  \<open>backing\<close> being the part of the backing array that starts at the current index.
\<close>

record 'a slice =
  elems :: "'a list"
  spare :: "'a list"

definition nilSlice :: "'a slice" where
  "nilSlice = \<lparr>elems = [], spare = []\<rparr>"

fun decodeElements :: "('a \<Rightarrow> json \<Rightarrow> 'a option) \<Rightarrow> 'a \<Rightarrow> 'a list \<Rightarrow> json list \<Rightarrow> 'a list option" where
  "decodeElements elem zero backing [] = Some []"
| "decodeElements elem zero backing (v # vs) =
     (case elem (case backing of [] \<Rightarrow> zero | x # _ \<Rightarrow> x) v of
        None \<Rightarrow> None
      | Some x \<Rightarrow>
          (case decodeElements elem zero (tl backing) vs of
             None \<Rightarrow> None
           | Some xs \<Rightarrow> Some (x # xs)))"

definition decodeSlice :: "('a \<Rightarrow> json \<Rightarrow> 'a option) \<Rightarrow> 'a \<Rightarrow> 'a slice \<Rightarrow> json \<Rightarrow> 'a slice option" where
  "decodeSlice elem zero cur v =
     (case v of
        JArray vs \<Rightarrow>
          (if vs = [] then Some nilSlice
           else
             map_option (\<lambda>xs. \<lparr>elems = xs, spare = drop (length vs) (elems cur @ spare cur)\<rparr>)
               (decodeElements elem zero (elems cur @ spare cur) vs))
      | JNull \<Rightarrow> Some nilSlice
      | _ \<Rightarrow> None)"

subsection \<open>\<^verbatim>\<open>CodexAdapter\<close>\<close>

text \<open>
  The fields of \<^verbatim>\<open>CodexEvent\<close>, prefixed by \<open>codex\<close>. Logging is not modelled.
\<close>

record CodexEvent =
  codexType :: string
  codexContent :: string
  codexTool :: string
  codexText :: string
  codexMessage :: string
  codexError :: string

definition CodexEvent_zero :: CodexEvent where
  "CodexEvent_zero = \<lparr>codexType = [], codexContent = [], codexTool = [], codexText = [],
     codexMessage = [], codexError = []\<rparr>"

definition CodexEvent_field :: "CodexEvent \<Rightarrow> string \<Rightarrow> json \<Rightarrow> CodexEvent option" where
  "CodexEvent_field ev k v =
     (if fieldMatches k ''type'' then map_option (\<lambda>s. ev\<lparr>codexType := s\<rparr>) (decodeString (codexType ev) v)
      else if fieldMatches k ''content'' then map_option (\<lambda>s. ev\<lparr>codexContent := s\<rparr>) (decodeString (codexContent ev) v)
      else if fieldMatches k ''tool'' then map_option (\<lambda>s. ev\<lparr>codexTool := s\<rparr>) (decodeString (codexTool ev) v)
      else if fieldMatches k ''text'' then map_option (\<lambda>s. ev\<lparr>codexText := s\<rparr>) (decodeString (codexText ev) v)
      else if fieldMatches k ''message'' then map_option (\<lambda>s. ev\<lparr>codexMessage := s\<rparr>) (decodeString (codexMessage ev) v)
      else if fieldMatches k ''error'' then map_option (\<lambda>s. ev\<lparr>codexError := s\<rparr>) (decodeString (codexError ev) v)
      else Some ev)"

definition Unmarshal_CodexEvent :: "string \<Rightarrow> CodexEvent option" where
  "Unmarshal_CodexEvent line =
     (case parseJSON line of
        None \<Rightarrow> None
      | Some v \<Rightarrow> decodeStruct CodexEvent_field CodexEvent_zero v)"

definition CodexEvents :: "CodexEvent \<Rightarrow> Event list" where
  "CodexEvents event =
     (if codexError event \<noteq> [] then [Error (codexError event)]
      else
        (if codexTool event \<noteq> [] then [ToolUse (codexTool event) []] else []) @
        (let text = (if codexContent event \<noteq> [] then codexContent event
                     else if codexText event \<noteq> [] then codexText event
                     else if codexMessage event \<noteq> [] then codexMessage event
                     else [])
         in if text \<noteq> [] then [AssistantMessage text] else []))"

fun CodexLoop :: "string list \<Rightarrow> Event list" where
  "CodexLoop [] = []"
| "CodexLoop (line # rest) =
     (if line = [] then CodexLoop rest
      else
        (case Unmarshal_CodexEvent line of
           None \<Rightarrow> AssistantMessage line # CodexLoop rest
         | Some event \<Rightarrow> CodexEvents event @ CodexLoop rest))"

definition CodexAdapter_Process :: "Reader \<Rightarrow> Event list \<times> error option" where
  "CodexAdapter_Process reader =
     (case Scanner reader of
        (lines, Some err) \<Rightarrow> (CodexLoop lines, Some (''error reading Codex output: '' @ err))
      | (lines, None) \<Rightarrow> (CodexLoop lines, None))"

subsection \<open>\<^verbatim>\<open>ClaudeAdapter\<close>\<close>

text \<open>
  The structs \<^verbatim>\<open>ClaudeContent\<close>, \<^verbatim>\<open>ClaudeMessage\<close>, \<^verbatim>\<open>ClaudeDelta\<close>,
  \<^verbatim>\<open>ClaudeEventData\<close> and \<^verbatim>\<open>ClaudeStreamEvent\<close>; each field name is prefixed by the
  last word of its struct's name.
\<close>

record ClaudeContent =
  contentType :: string
  contentText :: string

record ClaudeMessage =
  messageContent :: "ClaudeContent slice"

record ClaudeDelta =
  deltaType :: string
  deltaText :: string

record ClaudeEventData =
  dataDelta :: ClaudeDelta

record ClaudeStreamEvent =
  eventType :: string
  eventName :: string
  eventMessage :: ClaudeMessage
  eventEvent :: ClaudeEventData

definition ClaudeContent_field :: "ClaudeContent \<Rightarrow> string \<Rightarrow> json \<Rightarrow> ClaudeContent option" where
  "ClaudeContent_field c k v =
     (if fieldMatches k ''type'' then map_option (\<lambda>s. c\<lparr>contentType := s\<rparr>) (decodeString (contentType c) v)
      else if fieldMatches k ''text'' then map_option (\<lambda>s. c\<lparr>contentText := s\<rparr>) (decodeString (contentText c) v)
      else Some c)"

definition ClaudeContent_zero :: ClaudeContent where
  "ClaudeContent_zero = \<lparr>contentType = [], contentText = []\<rparr>"

definition ClaudeMessage_field :: "ClaudeMessage \<Rightarrow> string \<Rightarrow> json \<Rightarrow> ClaudeMessage option" where
  "ClaudeMessage_field m k v =
     (if fieldMatches k ''content'' then
        map_option (\<lambda>cs. m\<lparr>messageContent := cs\<rparr>)
          (decodeSlice (decodeStruct ClaudeContent_field) ClaudeContent_zero (messageContent m) v)
      else Some m)"

definition ClaudeDelta_field :: "ClaudeDelta \<Rightarrow> string \<Rightarrow> json \<Rightarrow> ClaudeDelta option" where
  "ClaudeDelta_field d k v =
     (if fieldMatches k ''type'' then map_option (\<lambda>s. d\<lparr>deltaType := s\<rparr>) (decodeString (deltaType d) v)
      else if fieldMatches k ''text'' then map_option (\<lambda>s. d\<lparr>deltaText := s\<rparr>) (decodeString (deltaText d) v)
      else Some d)"

definition ClaudeEventData_field :: "ClaudeEventData \<Rightarrow> string \<Rightarrow> json \<Rightarrow> ClaudeEventData option" where
  "ClaudeEventData_field e k v =
     (if fieldMatches k ''delta'' then
        map_option (\<lambda>d. e\<lparr>dataDelta := d\<rparr>) (decodeStruct ClaudeDelta_field (dataDelta e) v)
      else Some e)"

definition ClaudeStreamEvent_field :: "ClaudeStreamEvent \<Rightarrow> string \<Rightarrow> json \<Rightarrow> ClaudeStreamEvent option" where
  "ClaudeStreamEvent_field ev k v =
     (if fieldMatches k ''type'' then map_option (\<lambda>s. ev\<lparr>eventType := s\<rparr>) (decodeString (eventType ev) v)
      else if fieldMatches k ''name'' then map_option (\<lambda>s. ev\<lparr>eventName := s\<rparr>) (decodeString (eventName ev) v)
      else if fieldMatches k ''message'' then
        map_option (\<lambda>m. ev\<lparr>eventMessage := m\<rparr>) (decodeStruct ClaudeMessage_field (eventMessage ev) v)
      else if fieldMatches k ''event'' then
        map_option (\<lambda>e. ev\<lparr>eventEvent := e\<rparr>) (decodeStruct ClaudeEventData_field (eventEvent ev) v)
      else Some ev)"

definition ClaudeStreamEvent_zero :: ClaudeStreamEvent where
  "ClaudeStreamEvent_zero = \<lparr>eventType = [], eventName = [],
     eventMessage = \<lparr>messageContent = nilSlice\<rparr>,
     eventEvent = \<lparr>dataDelta = \<lparr>deltaType = [], deltaText = []\<rparr>\<rparr>\<rparr>"

definition Unmarshal_ClaudeStreamEvent :: "string \<Rightarrow> ClaudeStreamEvent option" where
  "Unmarshal_ClaudeStreamEvent line =
     (case parseJSON line of
        None \<Rightarrow> None
      | Some v \<Rightarrow> decodeStruct ClaudeStreamEvent_field ClaudeStreamEvent_zero v)"

fun ClaudeContentLoop :: "ClaudeContent list \<Rightarrow> Event list" where
  "ClaudeContentLoop [] = []"
| "ClaudeContentLoop (content # rest) =
     (if contentType content = ''text'' \<and> contentText content \<noteq> []
      then AssistantMessage (contentText content) # ClaudeContentLoop rest
      else ClaudeContentLoop rest)"

definition ClaudeEvents :: "ClaudeStreamEvent \<Rightarrow> Event list" where
  "ClaudeEvents event =
     (if eventType event = ''assistant'' then
        ClaudeContentLoop (elems (messageContent (eventMessage event)))
      else if eventType event = ''tool_use'' then
        (if eventName event \<noteq> [] then [ToolUse (eventName event) []] else [])
      else if eventType event = ''result'' then []
      else if eventType event = ''stream_event'' then
        (if deltaType (dataDelta (eventEvent event)) = ''text_delta''
            \<and> deltaText (dataDelta (eventEvent event)) \<noteq> []
         then [AssistantMessage (deltaText (dataDelta (eventEvent event)))] else [])
      else [])"

fun ClaudeLoop :: "string list \<Rightarrow> Event list" where
  "ClaudeLoop [] = []"
| "ClaudeLoop (line # rest) =
     (if line = [] then ClaudeLoop rest
      else
        (case Unmarshal_ClaudeStreamEvent line of
           None \<Rightarrow> ClaudeLoop rest
         | Some event \<Rightarrow> ClaudeEvents event @ ClaudeLoop rest))"

definition ClaudeAdapter_Process :: "Reader \<Rightarrow> Event list \<times> error option" where
  "ClaudeAdapter_Process reader =
     (case Scanner reader of
        (lines, Some err) \<Rightarrow> (ClaudeLoop lines, Some (''error reading Claude output: '' @ err))
      | (lines, None) \<Rightarrow> (ClaudeLoop lines, None))"

section \<open>Change Detector (internal/git)\<close>

text \<open>
  The functions of the package run \<^verbatim>\<open>git\<close>; the result of the command (its output, or
  the error of \<^verbatim>\<open>cmd.Output\<close>) is the argument of the model. \<open>Split\<close> and \<open>TrimSuffix\<close>
  are \<^verbatim>\<open>strings.Split\<close> and \<^verbatim>\<open>strings.TrimSuffix\<close> for a separator of one byte, and
  \<open>TrimSpace\<close> is \<^verbatim>\<open>strings.TrimSpace\<close>.
\<close>

fun SplitFrom :: "char \<Rightarrow> string \<Rightarrow> string \<Rightarrow> string list" where
  "SplitFrom sep cur [] = [cur]"
| "SplitFrom sep cur (c # cs) =
     (if c = sep then cur # SplitFrom sep [] cs else SplitFrom sep (cur @ [c]) cs)"

definition Split :: "string \<Rightarrow> char \<Rightarrow> string list" where
  "Split s sep = SplitFrom sep [] s"

definition TrimSuffix :: "string \<Rightarrow> char \<Rightarrow> string" where
  "TrimSuffix s c = (if s \<noteq> [] \<and> last s = c then butlast s else s)"

definition classifyLine :: "string \<Rightarrow> int \<times> int \<times> int \<Rightarrow> int \<times> int \<times> int" where
  "classifyLine line acc =
     (case acc of (modified, staged, untracked) \<Rightarrow>
        if line = [] then (modified, staged, untracked)
        else if length line < 3 then (modified, staged, untracked)
        else
          (let statusCode = take 2 line in
             if statusCode = ''??'' then (modified, staged, untracked + 1)
             else
               (let staged = (if statusCode ! 0 \<noteq> CHR '' '' \<and> statusCode ! 0 \<noteq> CHR ''?''
                              then staged + 1 else staged);
                    modified = (if statusCode ! 1 \<noteq> CHR '' '' \<and> statusCode ! 1 \<noteq> CHR ''?''
                                then modified + 1 else modified)
                in (modified, staged, untracked))))"

definition GetChangedFiles :: "error + string \<Rightarrow> (int \<times> int \<times> int) \<times> error option" where
  "GetChangedFiles gitStatus =
     (case gitStatus of
        Inl err \<Rightarrow> ((0, 0, 0), Some (''failed to get changed files: '' @ err))
      | Inr outputStr \<Rightarrow>
          if outputStr = [] then ((0, 0, 0), None)
          else (fold classifyLine (Split (TrimSuffix outputStr (CHR 0x0A)) (CHR 0x0A)) (0, 0, 0), None))"

fun TrimLeftSpace :: "string \<Rightarrow> string" where
  "TrimLeftSpace [] = []"
| "TrimLeftSpace (c # cs) =
     (if spaceWidth (c # cs) = 0 then c # cs else TrimLeftSpace (drop (spaceWidth (c # cs) - 1) cs))"

definition spaceWidthRight :: "string \<Rightarrow> nat" where
  "spaceWidthRight s =
     (case find (\<lambda>p. take (length p) (rev s) = rev p) spaceRunes of
        None \<Rightarrow> 0
      | Some p \<Rightarrow> length p)"

function TrimRightSpace :: "string \<Rightarrow> string" where
  "TrimRightSpace s =
     (if s = [] \<or> spaceWidthRight s = 0 then s
      else TrimRightSpace (take (length s - spaceWidthRight s) s))"
  by pat_completeness auto
termination
  by (relation "measure length") auto

definition TrimSpace :: "string \<Rightarrow> string" where
  "TrimSpace s = TrimRightSpace (TrimLeftSpace s)"


definition HasChanges :: "error + string \<Rightarrow> bool \<times> error option" where
  "HasChanges gitStatus =
     (case gitStatus of
        Inl err \<Rightarrow> (False, Some (''failed to check for changes: '' @ err))
      | Inr output \<Rightarrow> (0 < length (TrimSpace output), None))"

section \<open>Process Supervisor (internal/runner, \<^verbatim>\<open>RunIteration\<close>)\<close>

text \<open>
  One pass runs external commands. \<open>IterationEnv\<close> holds what each of them answers in
  the order \<^verbatim>\<open>RunIteration\<close> asks: the commit count before (\<^verbatim>\<open>git.CountCommits\<close>, the
  decimal count printed by git), the errors of creating the pipes and of starting the
  agent, what the agent writes to its standard output and standard error, the result of
  \<^verbatim>\<open>cmd.Wait\<close>, the commit count after, the output of \<^verbatim>\<open>git status --porcelain\<close>, and
  the result of the verification command. Commit counts are Go \<^verbatim>\<open>int\<close>s between 0 and
  \<open>2^63\<close>, so their difference does not overflow; they are modelled as \<^typ>\<open>int\<close>.
  The result carries the two returned values, the events handed to the display
  goroutine, and the commands run, in order. Printing is not modelled.
\<close>

datatype action =
    GitCountCommits
  | StartAgent "string list" "string option"
  | GitStatus
  | RunVerify string

record IterationEnv =
  countBefore :: "error + int"
  stdoutPipeErr :: "error option"
  stderrPipeErr :: "error option"
  startErr :: "error option"
  stdout :: Reader
  stderr :: Reader
  waitErr :: "error option"
  countAfter :: "error + int"
  status :: "error + string"
  verifyErr :: "error option"

record IterationResult =
  commitsResult :: int
  errResult :: "error option"
  eventsShown :: "Event list"
  actionsDone :: "action list"

definition selectAdapter :: "Agent \<Rightarrow> Reader \<Rightarrow> Event list \<times> error option" where
  "selectAdapter ag =
     (if ID ag = ''claude'' then ClaudeAdapter_Process
      else if ID ag = ''codex'' then CodexAdapter_Process
      else PassThroughAdapter_Process)"

definition failed :: "error \<Rightarrow> Event list \<Rightarrow> action list \<Rightarrow> IterationResult" where
  "failed e evs acts = \<lparr>commitsResult = 0, errResult = Some e, eventsShown = evs, actionsDone = acts\<rparr>"

definition runVerification ::
  "string \<Rightarrow> IterationEnv \<Rightarrow> int \<Rightarrow> Event list \<Rightarrow> action list \<Rightarrow> IterationResult" where
  "runVerification verify env commitsMade evs acts =
     (if verify \<noteq> [] then
        (case verifyErr env of
           Some e \<Rightarrow>
             \<lparr>commitsResult = commitsMade, errResult = Some (''verification failed: '' @ e),
              eventsShown = evs, actionsDone = acts @ [RunVerify verify]\<rparr>
         | None \<Rightarrow>
             \<lparr>commitsResult = commitsMade, errResult = None,
              eventsShown = evs, actionsDone = acts @ [RunVerify verify]\<rparr>)
      else \<lparr>commitsResult = commitsMade, errResult = None, eventsShown = evs, actionsDone = acts\<rparr>)"

definition measureProgress ::
  "string \<Rightarrow> IterationEnv \<Rightarrow> int \<Rightarrow> Event list \<Rightarrow> action list \<Rightarrow> IterationResult" where
  "measureProgress verify env commitsBefore evs acts =
     (case countAfter env of
        Inl e \<Rightarrow>
          failed (''failed to count commits after iteration: '' @ e) evs (acts @ [GitCountCommits])
      | Inr commitsAfter \<Rightarrow>
          (let commitsMade = commitsAfter - commitsBefore in
           case GetChangedFiles (status env) of
             (counts, Some e) \<Rightarrow>
               \<lparr>commitsResult = commitsMade, errResult = Some (''failed to get changed files: '' @ e),
                eventsShown = evs, actionsDone = acts @ [GitCountCommits, GitStatus]\<rparr>
           | (counts, None) \<Rightarrow>
               runVerification verify env commitsMade evs (acts @ [GitCountCommits, GitStatus])))"

definition RunIteration ::
  "Agent \<Rightarrow> string \<Rightarrow> string \<Rightarrow> string \<Rightarrow> bool \<Rightarrow> IterationEnv \<Rightarrow> IterationResult" where
  "RunIteration ag prompt model verify autonomous env =
     (case countBefore env of
        Inl e \<Rightarrow> failed (''failed to count commits before iteration: '' @ e) [] [GitCountCommits]
      | Inr commitsBefore \<Rightarrow>
          (let cmdArgs = BuildCommand ag prompt model autonomous;
               stdin = (if PromptStyle ag = PromptStylePipe then Some prompt else None)
           in if length cmdArgs = 0 then
                failed ''agent BuildCommand returned empty command'' [] [GitCountCommits]
              else
                (case (stdoutPipeErr env, stderrPipeErr env, startErr env) of
                   (Some e, _, _) \<Rightarrow>
                     failed (''failed to create stdout pipe: '' @ e) [] [GitCountCommits]
                 | (None, Some e, _) \<Rightarrow>
                     failed (''failed to create stderr pipe: '' @ e) [] [GitCountCommits]
                 | (None, None, Some e) \<Rightarrow>
                     failed (''failed to start agent: '' @ e) [] [GitCountCommits]
                 | (None, None, None) \<Rightarrow>
                     (let started = [GitCountCommits, StartAgent cmdArgs stdin];
                          combined = MultiReader (stdout env) (stderr env);
                          processed = selectAdapter ag combined;
                          cmdErr = waitErr env
                      in case snd processed of
                           Some adapterErr \<Rightarrow>
                             failed (''adapter error: '' @ adapterErr) (fst processed) started
                         | None \<Rightarrow>
                             measureProgress verify env commitsBefore (fst processed) started))))"

section \<open>Loop Controller (internal/runner, \<^verbatim>\<open>Runner.Run\<close>)\<close>

datatype ExitCode =
  ExitSuccess | ExitError | ExitSafety | ExitMaxIterations | ExitStuck | ExitInterrupt

fun ExitCode_value :: "ExitCode \<Rightarrow> int" where
  "ExitCode_value ExitSuccess = 0"
| "ExitCode_value ExitError = 1"
| "ExitCode_value ExitSafety = 2"
| "ExitCode_value ExitMaxIterations = 3"
| "ExitCode_value ExitStuck = 4"
| "ExitCode_value ExitInterrupt = 130"

fun ExitReasonString :: "ExitCode \<Rightarrow> string" where
  "ExitReasonString ExitSuccess = [CHR 0xE2, CHR 0x9C, CHR 0x85] @ '' Complete (no changes)''"
| "ExitReasonString ExitError = [CHR 0xE2, CHR 0x9D, CHR 0x8C] @ '' Error''"
| "ExitReasonString ExitSafety = [CHR 0xE2, CHR 0x9B, CHR 0x94] @ '' Safety refusal''"
| "ExitReasonString ExitMaxIterations = [CHR 0xF0, CHR 0x9F, CHR 0x94, CHR 0x84] @ '' Max iterations reached''"
| "ExitReasonString ExitStuck = [CHR 0xF0, CHR 0x9F, CHR 0x94, CHR 0x81] @ '' Stuck (no commits)''"
| "ExitReasonString ExitInterrupt = [CHR 0xE2, CHR 0x9A, CHR 0xA0, CHR 0xEF, CHR 0xB8, CHR 0x8F] @ ''  Interrupted''"

record Config =
  CLI :: string
  Model :: string
  PromptFile :: string
  AutoPush :: bool
  StuckThreshold :: int
  Verify :: string
  Memory :: bool

record Metrics =
  Iterations :: int
  Commits :: int
  ExitReason :: string

record Runner =
  config :: Config
  prompt :: string
  agent :: Agent
  maxIters :: int
  singleRun :: bool
  metrics :: Metrics
  iterationsWithoutCommit :: int

definition NewMetrics :: Metrics where
  "NewMetrics = \<lparr>Iterations = 0, Commits = 0, ExitReason = []\<rparr>"

definition New :: "Config \<Rightarrow> string \<Rightarrow> Agent \<Rightarrow> bool \<Rightarrow> int \<Rightarrow> Runner" where
  "New cfg promptText ag chooChoo maxIterations =
     \<lparr>config = cfg, prompt = promptText, agent = ag, maxIters = maxIterations, singleRun = (\<not> chooChoo),
      metrics = NewMetrics, iterationsWithoutCommit = 0\<rparr>"

text \<open>
  The loop waits on nothing but the external world. A \<open>Pass\<close> holds what one turn of
  the loop observes: whether the context is already cancelled when the turn begins
  (\<^verbatim>\<open>ctx.Done()\<close>, after an interrupt signal), what the iteration observes, and the
  output of \<^verbatim>\<open>git status --porcelain\<close> read by \<^verbatim>\<open>git.HasChanges\<close>. \<open>RunLoop\<close>
  takes the turns still to come; it returns \<open>None\<close> when they are used up while the loop
  goes on, and otherwise the exit code, the runner as it is left, and the result of
  every iteration that was run. Pushing, the session memory and printing do not touch
  the runner and are not modelled.
\<close>

record Pass =
  cancelled :: bool
  iteration :: IterationEnv
  changes :: "error + string"

definition exit ::
  "ExitCode \<Rightarrow> Runner \<Rightarrow> IterationResult list \<Rightarrow> (ExitCode \<times> Runner \<times> IterationResult list) option" where
  \<comment> \<open>\<^verbatim>\<open>r.metrics.ExitReason = ExitReasonString(code); return code\<close>\<close>
  "exit code r results =
     Some (code, r\<lparr>metrics := (metrics r)\<lparr>ExitReason := ExitReasonString code\<rparr>\<rparr>, results)"

fun RunLoop ::
  "Runner \<Rightarrow> IterationResult list \<Rightarrow> Pass list \<Rightarrow> (ExitCode \<times> Runner \<times> IterationResult list) option" where
  "RunLoop r results [] = None"
| "RunLoop r results (p # passes) =
     (if cancelled p then exit ExitInterrupt r results
      else if maxIters r > 0 \<and> Iterations (metrics r) \<ge> maxIters r then
        exit ExitMaxIterations r results
      else
        (let r = r\<lparr>metrics := (metrics r)\<lparr>Iterations := Iterations (metrics r) + 1\<rparr>\<rparr>;
             result = RunIteration (agent r) (prompt r) (Model (config r)) (Verify (config r))
                        (\<not> singleRun r) (iteration p);
             commitsMade = commitsResult result;
             r = r\<lparr>metrics := (metrics r)\<lparr>Commits := Commits (metrics r) + commitsMade\<rparr>\<rparr>;
             results = results @ [result];
             hasChanges = (case HasChanges (changes p) of (b, None) \<Rightarrow> b | (b, Some e) \<Rightarrow> False)
         in if \<not> hasChanges \<and> commitsMade = 0 then exit ExitSuccess r results
            else
              (let r = (if hasChanges \<and> commitsMade = 0
                        then r\<lparr>iterationsWithoutCommit := iterationsWithoutCommit r + 1\<rparr>
                        else if commitsMade > 0 then r\<lparr>iterationsWithoutCommit := 0\<rparr>
                        else r)
               in if hasChanges \<and> commitsMade = 0
                     \<and> iterationsWithoutCommit r \<ge> StuckThreshold (config r) then
                    exit ExitStuck r results
                  else if singleRun r then exit ExitSuccess r results
                  else RunLoop r results passes)))"

definition Run :: "Runner \<Rightarrow> Pass list \<Rightarrow> (ExitCode \<times> Runner \<times> IterationResult list) option" where
  "Run r passes = RunLoop r [] passes"

definition validateRunConfig_threshold :: "Config \<Rightarrow> bool" where
  \<comment> \<open>the stuck-threshold check of \<^verbatim>\<open>validateRunConfig\<close>: a negative threshold is refused\<close>
  "validateRunConfig_threshold cfg = (\<not> StuckThreshold cfg < 0)"

section \<open>Inputs and abbreviations used in the statements\<close>

text \<open>
  A text made of lines, each ended by a newline: the shape of the output of
  \<^verbatim>\<open>git status --porcelain\<close> (one entry per line: two status characters, a space, the
  path) and of an agent's line-oriented output.
\<close>

definition joinLines :: "string list \<Rightarrow> string" where
  "joinLines ls = concat (map (\<lambda>l. l @ [CHR 0x0A]) ls)"

text \<open>
  The lines of a stream of bytes: the parts that its newlines separate, in order (what
  \<^verbatim>\<open>strings.Split\<close> gives), where what follows the last newline is a line only when it
  is not empty. A carriage return is a byte of its line like any other.
\<close>

definition nonEmptyEnd :: "string list \<Rightarrow> string list" where
  "nonEmptyEnd parts = (if last parts = [] then butlast parts else parts)"

definition streamLines :: "string \<Rightarrow> string list" where
  "streamLines s = nonEmptyEnd (Split s (CHR 0x0A))"

text \<open>
  \<open>Defaults\<close> is \<^verbatim>\<open>config.Defaults()\<close>. \<open>quietEnv\<close> is a pass in which every command
  succeeds and the agent prints nothing: the commit counts before and after and the
  output of \<^verbatim>\<open>git status --porcelain\<close> are its parameters. \<open>failedVerifyEnv\<close> is such a pass
  whose verification command exits with status 1.
\<close>

definition Defaults :: Config where
  "Defaults = \<lparr>CLI = ''claude'', Model = [], PromptFile = ''PROMPT.md'', AutoPush = True,
     StuckThreshold = 3, Verify = [], Memory = False\<rparr>"

definition quietEnv :: "int \<Rightarrow> int \<Rightarrow> string \<Rightarrow> IterationEnv" where
  "quietEnv before after gitStatus =
     \<lparr>countBefore = Inr before, stdoutPipeErr = None, stderrPipeErr = None, startErr = None,
      stdout = \<lparr>data = [], readErr = None\<rparr>, stderr = \<lparr>data = [], readErr = None\<rparr>,
      waitErr = None, countAfter = Inr after, status = Inr gitStatus, verifyErr = None\<rparr>"

definition quietPass :: "int \<Rightarrow> int \<Rightarrow> string \<Rightarrow> Pass" where
  "quietPass before after gitStatus =
     \<lparr>cancelled = False, iteration = quietEnv before after gitStatus, changes = Inr gitStatus\<rparr>"

definition failedVerifyEnv :: IterationEnv where
  "failedVerifyEnv = (quietEnv 3 4 [])\<lparr>verifyErr := Some ''exit status 1''\<rparr>"

text \<open>
  \<open>pass_result r p\<close> is the call of \<^verbatim>\<open>RunIteration\<close> made by the loop of runner \<open>r\<close> in
  the turn \<open>p\<close>, and \<open>counted r res\<close> is the runner after the iteration counter and
  the commit total are updated with the result \<open>res\<close>.
\<close>

definition pass_result :: "Runner \<Rightarrow> Pass \<Rightarrow> IterationResult" where
  "pass_result r p =
     RunIteration (agent r) (prompt r) (Model (config r)) (Verify (config r)) (\<not> singleRun r) (iteration p)"

definition counted :: "Runner \<Rightarrow> IterationResult \<Rightarrow> Runner" where
  "counted r res =
     r\<lparr>metrics := (metrics r)\<lparr>Iterations := Iterations (metrics r) + 1,
                                Commits := Commits (metrics r) + commitsResult res\<rparr>\<rparr>"

section \<open>Properties of the Command Builder\<close>

lemma Fields_codex: "Fields ''codex exec'' = [''codex'', ''exec'']"
  by (simp add: Fields_def spaceWidth_def spaceRunes_def)

lemma Fields_ollama: "Fields ''ollama run'' = [''ollama'', ''run'']"
  by (simp add: Fields_def spaceWidth_def spaceRunes_def)

lemma Fields_pipe: "Fields ''agent  chat'' = [''agent'', ''chat'']"
  by (simp add: Fields_def spaceWidth_def spaceRunes_def)

text \<open>
  Claim C7. For every profile, prompt text, model override and autonomous flag, the argv
  of \<open>BuildCommand\<close> is the white-space separated tokens of the profile's command, then
  the autonomous flags if \<open>autonomous\<close> holds and the interactive flags otherwise, then
  the pair of the model flag and the model exactly when both are non-empty, then the
  prompt suffix: the prompt alone for the styles \<open>arg\<close> and \<open>stream\<close>, the model (if
  non-empty) followed by the prompt for the style \<open>ollama\<close>, and nothing for the style
  \<open>pipe\<close> (nor for a style outside the four declared ones). For the style \<open>pipe\<close> the
  argv is the same whatever the prompt is.
\<close>

theorem BuildCommand_argv:
  "BuildCommand a promptText model autonomous =
     Fields (Command a) @
     (if autonomous then AutonomousFlags a else InteractiveFlags a) @
     (if model \<noteq> [] \<and> ModelFlag a \<noteq> [] then [ModelFlag a, model] else []) @
     (if PromptStyle a = PromptStyleArg \<or> PromptStyle a = PromptStyleStream then [promptText]
      else if PromptStyle a = PromptStyleOllama then
        (if model \<noteq> [] then [model] else []) @ [promptText]
      else [])
   \<and> (PromptStyle a = PromptStylePipe \<longrightarrow>
        BuildCommand a promptText model autonomous = BuildCommand a other model autonomous)"
  by (simp add: BuildCommand_def Let_def PromptStyleArg_def PromptStyleStream_def
      PromptStyleOllama_def PromptStylePipe_def)

theorem BuildCommand_argv_witness:
  "PromptStyle pipeAgent = PromptStylePipe
   \<and> BuildCommand pipeAgent ''fix the tests'' ''m1'' True = [''agent'', ''chat'', ''--yes'', ''-m'', ''m1'']
   \<and> BuildCommand pipeAgent ''fix the tests'' ''m1'' True = BuildCommand pipeAgent ''another prompt'' ''m1'' True
   \<and> BuildCommand ollama ''hi'' ''llama3'' True = [''ollama'', ''run'', ''llama3'', ''hi'']
   \<and> BuildCommand codex ''hi'' ''o3'' False = [''codex'', ''exec'', ''--json'', ''--model'', ''o3'', ''hi'']"
  using BuildCommand_argv [of pipeAgent "''fix the tests''" "''m1''" True "''another prompt''"]
    BuildCommand_argv [of pipeAgent "''another prompt''" "''m1''" True "''another prompt''"]
    BuildCommand_argv [of ollama "''hi''" "''llama3''" True "''hi''"]
    BuildCommand_argv [of codex "''hi''" "''o3''" False "''hi''"]
  by (simp add: pipeAgent_def ollama_def codex_def Fields_codex Fields_ollama Fields_pipe
      PromptStyleArg_def PromptStyleStream_def PromptStyleOllama_def PromptStylePipe_def)

section \<open>Properties of the Change Detector\<close>

lemma SplitFrom_noSep: "sep \<notin> set l \<Longrightarrow> SplitFrom sep cur (l @ sep # rest) = (cur @ l) # SplitFrom sep [] rest"
  by (induction l arbitrary: cur) auto

lemma SplitFrom_noSep_end: "sep \<notin> set l \<Longrightarrow> SplitFrom sep cur l = [cur @ l]"
  by (induction l arbitrary: cur) auto

lemma SplitFrom_lines:
  assumes "\<forall>l \<in> set ls. sep \<notin> set l" "sep \<notin> set l"
  shows "SplitFrom sep [] (concat (map (\<lambda>l. l @ [sep]) ls) @ l) = ls @ [l]"
  using assms
proof (induction ls)
  case Nil
  then show ?case by (simp add: SplitFrom_noSep_end)
next
  case (Cons a ls)
  then show ?case
    using SplitFrom_noSep [of sep a "[]" "concat (map (\<lambda>l. l @ [sep]) ls) @ l"] by simp
qed

lemma joinLines_snoc: "joinLines (ls @ [l]) = joinLines ls @ l @ [CHR 0x0A]"
  by (simp add: joinLines_def)

lemma Split_joinLines:
  assumes "\<forall>l \<in> set ls. CHR 0x0A \<notin> set l" "ls \<noteq> []"
  shows "Split (TrimSuffix (joinLines ls) (CHR 0x0A)) (CHR 0x0A) = ls"
proof -
  obtain ks k where ls: "ls = ks @ [k]" using assms(2) by (metis rev_exhaust)
  have "TrimSuffix (joinLines ls) (CHR 0x0A) = joinLines ks @ k"
    by (simp add: ls joinLines_snoc TrimSuffix_def butlast_append)
  moreover have "SplitFrom (CHR 0x0A) [] (joinLines ks @ k) = ks @ [k]"
    unfolding joinLines_def using assms(1) by (intro SplitFrom_lines) (auto simp: ls)
  ultimately show ?thesis by (simp add: Split_def ls)
qed

lemma joinLines_empty_iff: "joinLines ls = [] \<longleftrightarrow> ls = []"
  by (cases ls) (simp_all add: joinLines_def)

lemma GetChangedFiles_joinLines:
  assumes "\<forall>l \<in> set ls. CHR 0x0A \<notin> set l"
  shows "GetChangedFiles (Inr (joinLines ls)) = (fold classifyLine ls (0, 0, 0), None)"
proof (cases "ls = []")
  case True
  then show ?thesis by (simp add: GetChangedFiles_def joinLines_def)
next
  case False
  then show ?thesis
    using assms by (simp add: GetChangedFiles_def joinLines_empty_iff Split_joinLines)
qed

lemma classifyLine_shift:
  "classifyLine l (m, s, u) =
     (m + fst (classifyLine l (0, 0, 0)), s + fst (snd (classifyLine l (0, 0, 0))),
      u + snd (snd (classifyLine l (0, 0, 0))))"
  by (simp add: classifyLine_def Let_def)

lemma fold_classifyLine_shift:
  "fold classifyLine ls (m, s, u) =
     (m + fst (fold classifyLine ls (0, 0, 0)), s + fst (snd (fold classifyLine ls (0, 0, 0))),
      u + snd (snd (fold classifyLine ls (0, 0, 0))))"
proof (induction ls arbitrary: m s u)
  case Nil
  then show ?case by simp
next
  case (Cons l ls)
  obtain a b c where l: "classifyLine l (0, 0, 0) = (a, b, c)" by (metis prod_cases3)
  have "classifyLine l (m, s, u) = (m + a, s + b, u + c)"
    using classifyLine_shift [of l m s u] by (simp add: l)
  then show ?case
    using Cons.IH [of "m + a" "s + b" "u + c"] Cons.IH [of a b c] by (simp add: l algebra_simps)
qed

lemma fold_classifyLine_insert:
  assumes "fold classifyLine (before @ after) (0, 0, 0) = (m, s, u)"
    and "classifyLine l (0, 0, 0) = (dm, ds, du)"
  shows "fold classifyLine (before @ [l] @ after) (0, 0, 0) = (m + dm, s + ds, u + du)"
proof -
  obtain a b c where b: "fold classifyLine before (0, 0, 0) = (a, b, c)" by (metis prod_cases3)
  obtain a' b' c' where a: "fold classifyLine after (0, 0, 0) = (a', b', c')" by (metis prod_cases3)
  have 1: "(m, s, u) = (a + a', b + b', c + c')"
    using assms(1) fold_classifyLine_shift [of after a b c] by (simp add: b a)
  have "fold classifyLine (before @ [l] @ after) (0, 0, 0) = fold classifyLine after (classifyLine l (a, b, c))"
    by (simp add: b)
  also have "\<dots> = fold classifyLine after (a + dm, b + ds, c + du)"
    using classifyLine_shift [of l a b c] by (simp add: assms(2))
  also have "\<dots> = (a + dm + a', b + ds + b', c + du + c')"
    using fold_classifyLine_shift [of after "a + dm" "b + ds" "c + du"] by (simp add: a)
  finally show ?thesis using 1 by simp
qed

lemma classifyLine_codes:
  "classifyLine ('' M '' @ path) (0, 0, 0) = (1, 0, 0)"
  "classifyLine (''M  '' @ path) (0, 0, 0) = (0, 1, 0)"
  "classifyLine (''MM '' @ path) (0, 0, 0) = (1, 1, 0)"
  "classifyLine (''?? '' @ path) (0, 0, 0) = (0, 0, 1)"
  by (simp_all add: classifyLine_def)

text \<open>
  Claim C9. In a status listing, an entry with status \<open>" M"\<close> (space, M) adds one to
  \<open>modified\<close> only, an entry with status \<open>"M "\<close> adds one to \<open>staged\<close> only, an entry
  with status \<open>"MM"\<close> adds one to both \<open>staged\<close> and \<open>modified\<close>, and an entry with status
  \<open>"??"\<close> adds one to \<open>untracked\<close> only: the counts of the listing with the entry
  inserted anywhere are the counts of the listing without it, plus these.
\<close>

theorem status_codes:
  assumes "\<forall>l \<in> set (before @ after). CHR 0x0A \<notin> set l" and "CHR 0x0A \<notin> set path"
    and "GetChangedFiles (Inr (joinLines (before @ after))) = ((modified, staged, untracked), None)"
  shows "GetChangedFiles (Inr (joinLines (before @ ['' M '' @ path] @ after))) =
           ((modified + 1, staged, untracked), None)
       \<and> GetChangedFiles (Inr (joinLines (before @ [''M  '' @ path] @ after))) =
           ((modified, staged + 1, untracked), None)
       \<and> GetChangedFiles (Inr (joinLines (before @ [''MM '' @ path] @ after))) =
           ((modified + 1, staged + 1, untracked), None)
       \<and> GetChangedFiles (Inr (joinLines (before @ [''?? '' @ path] @ after))) =
           ((modified, staged, untracked + 1), None)"
proof -
  have base: "fold classifyLine (before @ after) (0, 0, 0) = (modified, staged, untracked)"
    using assms(1,3) GetChangedFiles_joinLines [of "before @ after"] by simp
  have ins: "GetChangedFiles (Inr (joinLines (before @ [code @ path] @ after))) =
      ((modified + dm, staged + ds, untracked + du), None)"
    if "classifyLine (code @ path) (0, 0, 0) = (dm, ds, du)" and "CHR 0x0A \<notin> set code" for code dm ds du
  proof -
    have "\<forall>l \<in> set (before @ [code @ path] @ after). CHR 0x0A \<notin> set l"
      using assms(1,2) that(2) by auto
    then show ?thesis
      using GetChangedFiles_joinLines [of "before @ [code @ path] @ after"]
        fold_classifyLine_insert [OF base that(1)] by simp
  qed
  show ?thesis
    using ins [OF classifyLine_codes(1)] ins [OF classifyLine_codes(2)]
      ins [OF classifyLine_codes(3)] ins [OF classifyLine_codes(4)] by simp
qed

theorem status_codes_witness:
  "GetChangedFiles (Inr ''M  b.go\<newline>?? d.go\<newline>'') = ((0, 1, 1), None)
   \<and> GetChangedFiles (Inr ''M  b.go\<newline> M a.go\<newline>?? d.go\<newline>'') = ((1, 1, 1), None)
   \<and> GetChangedFiles (Inr ''M  b.go\<newline>M  a.go\<newline>?? d.go\<newline>'') = ((0, 2, 1), None)
   \<and> GetChangedFiles (Inr ''M  b.go\<newline>MM a.go\<newline>?? d.go\<newline>'') = ((1, 2, 1), None)
   \<and> GetChangedFiles (Inr ''M  b.go\<newline>?? a.go\<newline>?? d.go\<newline>'') = ((0, 1, 2), None)"
proof -
  have base: "GetChangedFiles (Inr (joinLines ([''M  b.go''] @ [''?? d.go'']))) = ((0, 1, 1), None)"
    by (simp add: joinLines_def GetChangedFiles_def TrimSuffix_def Split_def classifyLine_def)
  show ?thesis
    using base status_codes [of "[''M  b.go'']" "[''?? d.go'']" "''a.go''" 0 1 1, OF _ _ base]
    by (simp add: joinLines_def)
qed

section \<open>Properties of the output adapters\<close>

subsection \<open>The loops, line by line\<close>

lemma PassThroughLoop_map: "PassThroughLoop ls = map AssistantMessage ls"
  by (induction ls) simp_all

lemma ClaudeLoop_append: "ClaudeLoop (xs @ ys) = ClaudeLoop xs @ ClaudeLoop ys"
  by (induction xs) (simp_all split: option.splits)

lemma CodexLoop_append: "CodexLoop (xs @ ys) = CodexLoop xs @ CodexLoop ys"
  by (induction xs) (simp_all split: option.splits)

lemma Process_events:
  "fst (ClaudeAdapter_Process reader) = ClaudeLoop (fst (Scanner reader))"
  "fst (CodexAdapter_Process reader) = CodexLoop (fst (Scanner reader))"
  "fst (PassThroughAdapter_Process reader) = PassThroughLoop (fst (Scanner reader))"
  by (simp_all add: ClaudeAdapter_Process_def CodexAdapter_Process_def PassThroughAdapter_Process_def
      split: prod.splits option.splits)

lemma parseJSON_empty: "parseJSON [] = None"
  by (simp add: parseJSON_def)

lemma Unmarshal_CodexEvent_empty: "Unmarshal_CodexEvent [] = None"
  by (simp add: Unmarshal_CodexEvent_def parseJSON_empty)

lemma Unmarshal_Claude_empty: "Unmarshal_ClaudeStreamEvent [] = None"
  by (simp add: Unmarshal_ClaudeStreamEvent_def parseJSON_empty)

subsection \<open>The decoder on the lines of the adapter tests\<close>

lemma Unmarshal_Claude_result:
  "Unmarshal_ClaudeStreamEvent ''{\"type\":\"result\"}'' = Some (ClaudeStreamEvent_zero\<lparr>eventType := ''result''\<rparr>)"
  by code_simp

lemma Unmarshal_Claude_tool_use:
  "Unmarshal_ClaudeStreamEvent ''{\"type\":\"tool_use\",\"name\":\"Read\"}'' =
     Some (ClaudeStreamEvent_zero\<lparr>eventType := ''tool_use'', eventName := ''Read''\<rparr>)"
  by code_simp

lemma Unmarshal_Claude_invalid:
  "Unmarshal_ClaudeStreamEvent ''{invalid json here}'' = None"
  by code_simp

lemma Unmarshal_Claude_assistant:
  "Unmarshal_ClaudeStreamEvent ''{\"type\":\"assistant\",\"message\":{\"content\":[{\"type\":\"text\",\"text\":\"Success\"}]}}'' =
     Some (ClaudeStreamEvent_zero\<lparr>eventType := ''assistant'',
        eventMessage := \<lparr>messageContent =
          \<lparr>elems = [\<lparr>contentType = ''text'', contentText = ''Success''\<rparr>], spare = []\<rparr>\<rparr>\<rparr>)"
  by code_simp

text \<open>
  A key that occurs twice is decoded twice into the same field. The second array of
  a repeated \<open>content\<close> key is decoded into the elements that the first one left in
  the slice, so a field that the second array does not mention keeps its value; an
  element that comes back from between the length and the capacity does the same.
\<close>

lemma Unmarshal_Claude_repeated_content:
  "map_option ClaudeEvents (Unmarshal_ClaudeStreamEvent
     ''{\"type\":\"assistant\",\"message\":{\"content\":[{\"type\":\"text\",\"text\":\"m2\"}],\"content\":[{\"type\":\"text\"}]}}'')
     = Some [AssistantMessage ''m2'']"
  by code_simp

lemma Unmarshal_Claude_spare_content:
  "map_option ClaudeEvents (Unmarshal_ClaudeStreamEvent
     ''{\"type\":\"assistant\",\"message\":{\"content\":[{\"type\":\"text\",\"text\":\"a\"},{\"type\":\"text\",\"text\":\"b\"}],\"content\":[{}],\"content\":[{},{}]}}'')
     = Some [AssistantMessage ''a'', AssistantMessage ''b'']"
  by code_simp

lemma Unmarshal_Claude_emptied_content:
  "map_option ClaudeEvents (Unmarshal_ClaudeStreamEvent
     ''{\"type\":\"assistant\",\"message\":{\"content\":[{\"type\":\"text\",\"text\":\"a\"}],\"content\":[],\"content\":[{\"type\":\"text\"}]}}'')
     = Some []"
  by code_simp

lemma Unmarshal_Codex_error:
  "Unmarshal_CodexEvent ''{\"type\":\"error\",\"error\":\"X\",\"content\":\"Y\"}'' =
     Some (CodexEvent_zero\<lparr>codexType := ''error'', codexError := ''X'', codexContent := ''Y''\<rparr>)"
  by code_simp

lemma Unmarshal_Codex_not_json: "Unmarshal_CodexEvent ''not json'' = None"
  by code_simp

lemma Unmarshal_Codex_plain_text: "Unmarshal_CodexEvent ''This is plain text, not JSON'' = None"
  by code_simp

lemma Unmarshal_Codex_tool:
  "Unmarshal_CodexEvent ''{\"type\":\"tool\",\"tool\":\"Read\"}'' =
     Some (CodexEvent_zero\<lparr>codexType := ''tool'', codexTool := ''Read''\<rparr>)"
  by code_simp

lemma Unmarshal_Codex_done:
  "Unmarshal_CodexEvent ''{\"type\":\"message\",\"content\":\"Done\"}'' =
     Some (CodexEvent_zero\<lparr>codexType := ''message'', codexContent := ''Done''\<rparr>)"
  by code_simp

text \<open>
  A line that is JSON but holds a number where the struct has a string makes
  \<^verbatim>\<open>json.Unmarshal\<close> return an \<^verbatim>\<open>UnmarshalTypeError\<close>; the adapter of dialect B then
  treats it like a line that is not JSON, whatever its \<open>error\<close> field holds.
\<close>

lemma Unmarshal_Codex_wrong_type:
  "parseJSON ''{\"error\":\"X\",\"tool\":5}'' =
     Some (JObject [(''error'', JString ''X''), (''tool'', JNumber ''5'')])
   \<and> Unmarshal_CodexEvent ''{\"error\":\"X\",\"tool\":5}'' = None"
  by code_simp

subsection \<open>The scanner on lines that end with a newline\<close>

lemma ScanLinesFrom_line:
  assumes "CHR 0x0A \<notin> set l" and "length cur + length l < MaxScanTokenSize"
  shows "ScanLinesFrom cur (l @ CHR 0x0A # rest) =
           (case ScanLinesFrom [] rest of (ts, e) \<Rightarrow> (dropCR (cur @ l) # ts, e))"
  using assms
proof (induction l arbitrary: cur)
  case Nil
  then show ?case by simp
next
  case (Cons c l)
  have "ScanLinesFrom cur ((c # l) @ CHR 0x0A # rest) = ScanLinesFrom (cur @ [c]) (l @ CHR 0x0A # rest)"
    using Cons.prems by auto
  also have "\<dots> = (case ScanLinesFrom [] rest of (ts, e) \<Rightarrow> (dropCR ((cur @ [c]) @ l) # ts, e))"
    using Cons.prems by (intro Cons.IH) simp_all
  finally show ?case by simp
qed

lemma ScanLinesFrom_joinLines:
  assumes "\<forall>l \<in> set ls. CHR 0x0A \<notin> set l \<and> length l < MaxScanTokenSize"
  shows "ScanLinesFrom [] (joinLines ls) = (map dropCR ls, None)"
  using assms
proof (induction ls)
  case Nil
  then show ?case by (simp add: joinLines_def)
next
  case (Cons l ls)
  have "joinLines (l # ls) = l @ CHR 0x0A # joinLines ls" by (simp add: joinLines_def)
  then show ?case
    using Cons ScanLinesFrom_line [of l "[]" "joinLines ls"] by simp
qed

lemma dropCR_id: "l = [] \<or> last l \<noteq> CHR 0x0D \<Longrightarrow> dropCR l = l"
  by (auto simp: dropCR_def)

lemma Scanner_joinLines:
  assumes "\<forall>l \<in> set ls. CHR 0x0A \<notin> set l \<and> length l < MaxScanTokenSize \<and> (l = [] \<or> last l \<noteq> CHR 0x0D)"
  shows "Scanner \<lparr>data = joinLines ls, readErr = e\<rparr> = (ls, e)"
proof -
  have "map dropCR ls = ls"
    using assms by (intro map_idI dropCR_id) simp
  moreover have "ScanLinesFrom [] (joinLines ls) = (map dropCR ls, None)"
    using assms by (intro ScanLinesFrom_joinLines) simp
  ultimately show ?thesis by (simp add: Scanner_def)
qed

lemma Scanner_codex_empty_line_test:
  "Scanner \<lparr>data = ''{\"type\":\"tool\",\"tool\":\"Read\"}\<newline>\<newline>{\"type\":\"message\",\"content\":\"Done\"}'', readErr = None\<rparr>
   = ([''{\"type\":\"tool\",\"tool\":\"Read\"}'', [], ''{\"type\":\"message\",\"content\":\"Done\"}''], None)"
  by (simp add: Scanner_def dropCR_def MaxScanTokenSize_def)

text \<open>
  The inputs of \<^verbatim>\<open>TestPassThroughAdapter_NoTrailingNewline\<close> and of
  \<^verbatim>\<open>TestPassThroughAdapter_ErrorFromScanner\<close> (a reader that fails at once).
\<close>

lemma PassThrough_no_trailing_newline:
  "PassThroughAdapter_Process \<lparr>data = ''Line without newline'', readErr = None\<rparr> =
     ([AssistantMessage ''Line without newline''], None)"
  by (simp add: PassThroughAdapter_Process_def Scanner_def dropCR_def MaxScanTokenSize_def)

lemma PassThrough_failing_reader:
  "PassThroughAdapter_Process \<lparr>data = [], readErr = Some ''general error for testing''\<rparr> =
     ([], Some ''general error for testing'')"
  by (simp add: PassThroughAdapter_Process_def Scanner_def)

subsection \<open>The passthrough adapter\<close>

text \<open>
  A line of \<open>MaxScanTokenSize\<close> bytes or more ends the scan with \<^verbatim>\<open>ErrTooLong\<close>, as a
  read error does: the lines before it are delivered, and \<^verbatim>\<open>Process\<close> returns the error.
\<close>

lemma ScanLinesFrom_too_long:
  assumes "CHR 0x0A \<notin> set l" and "MaxScanTokenSize \<le> length cur + length l"
    and "length cur < MaxScanTokenSize"
  shows "ScanLinesFrom cur (l @ rest) = ([], Some ErrTooLong)"
  using assms
proof (induction l arbitrary: cur)
  case Nil
  then show ?case by simp
next
  case (Cons c l)
  show ?case
  proof (cases "MaxScanTokenSize \<le> length cur + 1")
    case True
    then show ?thesis using Cons.prems by auto
  next
    case False
    then have "ScanLinesFrom cur ((c # l) @ rest) = ScanLinesFrom (cur @ [c]) (l @ rest)"
      using Cons.prems by auto
    also have "\<dots> = ([], Some ErrTooLong)"
      using Cons.prems False by (intro Cons.IH) simp_all
    finally show ?thesis .
  qed
qed

lemma PassThrough_too_long:
  assumes "CHR 0x0A \<notin> set l" and "MaxScanTokenSize \<le> length l"
  shows "PassThroughAdapter_Process \<lparr>data = l @ rest, readErr = e\<rparr> = ([], Some ErrTooLong)"
  using ScanLinesFrom_too_long [OF assms(1), of "[]" rest] assms(2)
  by (simp add: PassThroughAdapter_Process_def Scanner_def MaxScanTokenSize_def)

text \<open>
  For an input made of lines that end with a newline, hold no carriage return before it
  and stay below the scanner's token size, the messages are exactly the lines.
\<close>

lemma PassThrough_joinLines:
  assumes "\<forall>l \<in> set ls. CHR 0x0A \<notin> set l \<and> length l < MaxScanTokenSize \<and> (l = [] \<or> last l \<noteq> CHR 0x0D)"
  shows "PassThroughAdapter_Process \<lparr>data = joinLines ls, readErr = None\<rparr> = (map AssistantMessage ls, None)"
  by (simp add: PassThroughAdapter_Process_def PassThroughLoop_map Scanner_joinLines [OF assms])

text \<open>
  The lines of a stream. Every stream is the lines that its newlines end, followed by
  what is left after the last newline, and no part holds a newline.
\<close>

lemma SplitFrom_not_Nil: "SplitFrom sep cur s \<noteq> []"
  by (induction s arbitrary: cur) auto

lemma SplitFrom_hd_length: "length cur \<le> length (hd (SplitFrom sep cur s))"
proof (induction s arbitrary: cur)
  case Nil
  then show ?case by simp
next
  case (Cons c cs)
  show ?case
  proof (cases "c = sep")
    case True
    then show ?thesis by simp
  next
    case False
    have "length (cur @ [c]) \<le> length (hd (SplitFrom sep (cur @ [c]) cs))" by (rule Cons.IH)
    then show ?thesis using False by simp
  qed
qed

lemma SplitFrom_parts:
  "sep \<notin> set cur \<Longrightarrow> l \<in> set (SplitFrom sep cur s) \<Longrightarrow> sep \<notin> set l"
proof (induction s arbitrary: cur)
  case Nil
  then show ?case by simp
next
  case (Cons c cs)
  show ?case
  proof (cases "c = sep")
    case True
    then have "l = cur \<or> l \<in> set (SplitFrom sep [] cs)" using Cons.prems by simp
    then show ?thesis using Cons.prems(1) Cons.IH [of "[]"] by auto
  next
    case False
    then have "l \<in> set (SplitFrom sep (cur @ [c]) cs)" using Cons.prems by simp
    moreover have "sep \<notin> set (cur @ [c])" using False Cons.prems(1) by auto
    ultimately show ?thesis by (rule Cons.IH [rotated])
  qed
qed

lemma SplitFrom_concat:
  "concat (map (\<lambda>l. l @ [sep]) (butlast (SplitFrom sep cur s))) @ last (SplitFrom sep cur s) = cur @ s"
  by (induction s arbitrary: cur) (auto simp: SplitFrom_not_Nil)

lemma stream_parts:
  "joinLines (butlast (Split s (CHR 0x0A))) @ last (Split s (CHR 0x0A)) = s
   \<and> (\<forall>l \<in> set (Split s (CHR 0x0A)). CHR 0x0A \<notin> set l)"
  using SplitFrom_concat [of "CHR 0x0A" "[]" s] SplitFrom_parts [of "CHR 0x0A" "[]" _ s]
  by (auto simp: joinLines_def Split_def)

lemma nonEmptyEnd_Cons: "parts \<noteq> [] \<Longrightarrow> nonEmptyEnd (l # parts) = l # nonEmptyEnd parts"
  by (simp add: nonEmptyEnd_def)

lemma hd_nonEmptyEnd:
  assumes "parts \<noteq> []" and "hd parts \<noteq> []"
  shows "hd parts \<in> set (nonEmptyEnd parts)"
proof (cases parts)
  case Nil
  then show ?thesis using assms by simp
next
  case (Cons x xs)
  then show ?thesis using assms by (cases xs) (auto simp: nonEmptyEnd_def)
qed

lemma streamLines_joinLines:
  assumes "\<forall>l \<in> set ls. CHR 0x0A \<notin> set l" and "CHR 0x0A \<notin> set t"
  shows "streamLines (joinLines ls @ t) = ls @ (if t = [] then [] else [t])"
proof -
  have "SplitFrom (CHR 0x0A) [] (joinLines ls @ t) = ls @ [t]"
    unfolding joinLines_def using assms by (intro SplitFrom_lines) auto
  then show ?thesis by (simp add: streamLines_def Split_def nonEmptyEnd_def butlast_append)
qed

text \<open>
  While no line reaches \<open>MaxScanTokenSize\<close> bytes, the scanner delivers the lines of the
  stream, each without the carriage return that may end it, and then reports the error
  of the reader, if there is one.
\<close>

lemma ScanLinesFrom_SplitFrom:
  assumes "\<forall>l \<in> set (nonEmptyEnd (SplitFrom (CHR 0x0A) cur s)). length l < MaxScanTokenSize"
  shows "ScanLinesFrom cur s = (map dropCR (nonEmptyEnd (SplitFrom (CHR 0x0A) cur s)), None)"
  using assms
proof (induction s arbitrary: cur)
  case Nil
  then show ?case by (simp add: nonEmptyEnd_def)
next
  case (Cons c cs)
  show ?case
  proof (cases "c = CHR 0x0A")
    case True
    let ?X = "SplitFrom (CHR 0x0A) [] cs"
    have ne: "?X \<noteq> []" by (rule SplitFrom_not_Nil)
    have eq: "nonEmptyEnd (SplitFrom (CHR 0x0A) cur (c # cs)) = cur # nonEmptyEnd ?X"
      using True ne by (simp add: nonEmptyEnd_Cons)
    have "\<forall>l \<in> set (nonEmptyEnd ?X). length l < MaxScanTokenSize"
      using Cons.prems unfolding eq by simp
    then have "ScanLinesFrom [] cs = (map dropCR (nonEmptyEnd ?X), None)"
      by (rule Cons.IH)
    then show ?thesis unfolding eq using True by simp
  next
    case False
    let ?X = "SplitFrom (CHR 0x0A) (cur @ [c]) cs"
    have ne: "?X \<noteq> []" by (rule SplitFrom_not_Nil)
    have eq: "SplitFrom (CHR 0x0A) cur (c # cs) = ?X"
      using False by simp
    have all: "\<forall>l \<in> set (nonEmptyEnd ?X). length l < MaxScanTokenSize"
      using Cons.prems unfolding eq .
    have len: "length (cur @ [c]) \<le> length (hd ?X)" by (rule SplitFrom_hd_length)
    then have "hd ?X \<noteq> []" by auto
    then have "hd ?X \<in> set (nonEmptyEnd ?X)"
      using ne by (intro hd_nonEmptyEnd)
    then have "length (hd ?X) < MaxScanTokenSize"
      using all by blast
    then have short: "\<not> MaxScanTokenSize \<le> length cur + 1" using len by simp
    have "ScanLinesFrom (cur @ [c]) cs = (map dropCR (nonEmptyEnd ?X), None)"
      using all by (rule Cons.IH)
    then show ?thesis unfolding eq using False short by simp
  qed
qed

lemma Scanner_streamLines:
  assumes "\<forall>l \<in> set (streamLines s). length l < MaxScanTokenSize"
  shows "Scanner \<lparr>data = s, readErr = e\<rparr> = (map dropCR (streamLines s), e)"
  using ScanLinesFrom_SplitFrom [of "[]" s] assms
  by (simp add: Scanner_def streamLines_def Split_def)

lemma PassThrough_streamLines:
  assumes "\<forall>l \<in> set (streamLines s). length l < MaxScanTokenSize"
  shows "PassThroughAdapter_Process \<lparr>data = s, readErr = e\<rparr> =
           (map (\<lambda>l. AssistantMessage (dropCR l)) (streamLines s), e)"
  by (simp add: PassThroughAdapter_Process_def PassThroughLoop_map Scanner_streamLines [OF assms] comp_def)

lemma PassThrough_verbatim:
  assumes "\<forall>l \<in> set (streamLines s). length l < MaxScanTokenSize \<and> (l = [] \<or> last l \<noteq> CHR 0x0D)"
  shows "PassThroughAdapter_Process \<lparr>data = s, readErr = e\<rparr> = (map AssistantMessage (streamLines s), e)"
proof -
  have "map (\<lambda>l. AssistantMessage (dropCR l)) (streamLines s) = map AssistantMessage (streamLines s)"
    using assms by (intro map_cong refl) (simp add: dropCR_id)
  moreover have "\<forall>l \<in> set (streamLines s). length l < MaxScanTokenSize"
    using assms by simp
  ultimately show ?thesis by (simp add: PassThrough_streamLines)
qed

text \<open>
  The first line of \<open>MaxScanTokenSize\<close> bytes or more ends the scan: the lines before it
  are emitted, the line itself and all that follows are not, and \<^verbatim>\<open>Process\<close> returns
  \<^verbatim>\<open>ErrTooLong\<close>.
\<close>

lemma ScanLinesFrom_joinLines_too_long:
  assumes "\<forall>l \<in> set ls. CHR 0x0A \<notin> set l \<and> length l < MaxScanTokenSize"
    and "CHR 0x0A \<notin> set l" and "MaxScanTokenSize \<le> length l"
  shows "ScanLinesFrom [] (joinLines ls @ l @ rest) = (map dropCR ls, Some ErrTooLong)"
  using assms(1)
proof (induction ls)
  case Nil
  then show ?case
    using ScanLinesFrom_too_long [OF assms(2), of "[]" rest] assms(3)
    by (simp add: joinLines_def MaxScanTokenSize_def)
next
  case (Cons k ks)
  have "joinLines (k # ks) @ l @ rest = k @ CHR 0x0A # (joinLines ks @ l @ rest)" by (simp add: joinLines_def)
  then show ?case
    using Cons ScanLinesFrom_line [of k "[]" "joinLines ks @ l @ rest"] by simp
qed

lemma PassThrough_first_long_line:
  assumes "\<forall>l \<in> set ls. CHR 0x0A \<notin> set l \<and> length l < MaxScanTokenSize"
    and "CHR 0x0A \<notin> set l" and "MaxScanTokenSize \<le> length l"
  shows "PassThroughAdapter_Process \<lparr>data = joinLines ls @ l @ rest, readErr = e\<rparr> =
           (map (\<lambda>l. AssistantMessage (dropCR l)) ls, Some ErrTooLong)"
  by (simp add: PassThroughAdapter_Process_def PassThroughLoop_map Scanner_def
        ScanLinesFrom_joinLines_too_long [OF assms] comp_def)

text \<open>
  Claim C6, as stated, fails on two kinds of input stream. A line of 64 KiB or more is
  not emitted, and neither is any line after it: of the three lines \<open>first\<close>, 65536
  times \<open>a\<close>, and \<open>after\<close>, only \<open>first\<close> is emitted, and \<^verbatim>\<open>Process\<close> returns
  \<^verbatim>\<open>ErrTooLong\<close>. And a line that ends with a carriage return is not emitted as it is:
  the stream \<open>"a\r\n"\<close> gives the message \<open>a\<close>, without the carriage return.
\<close>

theorem PassThrough_long_line_counterexample:
  "PassThroughAdapter_Process
     \<lparr>data = ''first\<newline>'' @ replicate 65536 (CHR ''a'') @ ''\<newline>after\<newline>'', readErr = None\<rparr> =
     ([AssistantMessage ''first''], Some ErrTooLong)
   \<and> PassThroughAdapter_Process \<lparr>data = [CHR ''a'', CHR 0x0D, CHR 0x0A], readErr = None\<rparr> =
     ([AssistantMessage ''a''], None)"
proof (intro conjI)
  have "PassThroughAdapter_Process
     \<lparr>data = joinLines [''first''] @ replicate 65536 (CHR ''a'') @ ''\<newline>after\<newline>'', readErr = None\<rparr> =
     (map (\<lambda>l. AssistantMessage (dropCR l)) [''first''], Some ErrTooLong)"
    by (rule PassThrough_first_long_line) (simp_all add: MaxScanTokenSize_def)
  then show "PassThroughAdapter_Process
     \<lparr>data = ''first\<newline>'' @ replicate 65536 (CHR ''a'') @ ''\<newline>after\<newline>'', readErr = None\<rparr> =
     ([AssistantMessage ''first''], Some ErrTooLong)"
    by (simp add: joinLines_def dropCR_def)
  show "PassThroughAdapter_Process \<lparr>data = [CHR ''a'', CHR 0x0D, CHR 0x0A], readErr = None\<rparr> =
     ([AssistantMessage ''a''], None)"
    by (simp add: PassThroughAdapter_Process_def Scanner_def dropCR_def MaxScanTokenSize_def)
qed

text \<open>
  Claim C6, amended. For every input stream to the passthrough adapter in which every
  line is shorter than 64 KiB (\<open>MaxScanTokenSize\<close>, the largest token of
  \<^verbatim>\<open>bufio.Scanner\<close>), and whatever error the reader reports at its end: every line of
  the stream, empty lines included, is emitted as exactly one \<open>AssistantMessage\<close>, in
  the order of the input, and \<^verbatim>\<open>Process\<close> returns the reader's error. The lines are the
  parts that the newlines of the stream separate, the part after the last newline being
  a line when it is not empty; the text of the message is the line without the carriage
  return that may end it, and the line as it is otherwise. In particular the input
  \<open>"a\n\nb\n"\<close> has the lines \<open>a\<close>, the empty line and \<open>b\<close>, and gives exactly the three
  messages \<open>a\<close>, the empty text and \<open>b\<close>, in that order.
\<close>

theorem PassThrough_stream_lines:
  assumes "\<forall>l \<in> set (streamLines stream). length l < MaxScanTokenSize"
  shows "PassThroughAdapter_Process \<lparr>data = stream, readErr = e\<rparr> =
           (map (\<lambda>l. AssistantMessage (dropCR l)) (streamLines stream), e)
       \<and> streamLines ''a\<newline>\<newline>b\<newline>'' = [''a'', [], ''b'']
       \<and> PassThroughAdapter_Process \<lparr>data = ''a\<newline>\<newline>b\<newline>'', readErr = None\<rparr> =
           ([AssistantMessage ''a'', AssistantMessage [], AssistantMessage ''b''], None)"
proof (intro conjI)
  show "PassThroughAdapter_Process \<lparr>data = stream, readErr = e\<rparr> =
           (map (\<lambda>l. AssistantMessage (dropCR l)) (streamLines stream), e)"
    using assms by (rule PassThrough_streamLines)
  show "streamLines ''a\<newline>\<newline>b\<newline>'' = [''a'', [], ''b'']"
    by (simp add: streamLines_def Split_def nonEmptyEnd_def)
  show "PassThroughAdapter_Process \<lparr>data = ''a\<newline>\<newline>b\<newline>'', readErr = None\<rparr> =
           ([AssistantMessage ''a'', AssistantMessage [], AssistantMessage ''b''], None)"
    by (simp add: PassThroughAdapter_Process_def Scanner_def dropCR_def MaxScanTokenSize_def)
qed

theorem PassThrough_stream_lines_witness:
  "streamLines (''first line\<newline>\<newline>  third line'' @ [CHR 0x0D, CHR 0x0A] @ ''last'') =
     [''first line'', [], ''  third line'' @ [CHR 0x0D], ''last'']
   \<and> PassThroughAdapter_Process
       \<lparr>data = ''first line\<newline>\<newline>  third line'' @ [CHR 0x0D, CHR 0x0A] @ ''last'',
        readErr = Some ''read error''\<rparr> =
       ([AssistantMessage ''first line'', AssistantMessage [], AssistantMessage ''  third line'',
         AssistantMessage ''last''], Some ''read error'')"
proof -
  have parts: "streamLines (''first line\<newline>\<newline>  third line'' @ [CHR 0x0D, CHR 0x0A] @ ''last'') =
     [''first line'', [], ''  third line'' @ [CHR 0x0D], ''last'']"
    by (simp add: streamLines_def Split_def nonEmptyEnd_def)
  show ?thesis
    using PassThrough_stream_lines
      [of "''first line\<newline>\<newline>  third line'' @ [CHR 0x0D, CHR 0x0A] @ ''last''" "Some ''read error''"]
      parts
    by (simp add: MaxScanTokenSize_def dropCR_def)
qed

subsection \<open>The adapter of dialect A\<close>

text \<open>
  Claim C5. For the adapter of dialect A (\<^verbatim>\<open>ClaudeAdapter\<close>): a line that decodes to
  the type \<open>result\<close>, such as \<open>{"type":"result"}\<close>, emits no event; a line that decodes
  to the type \<open>tool_use\<close> with a non-empty name, such as
  \<open>{"type":"tool_use","name":"Read"}\<close>, emits exactly one \<open>ToolUse\<close> event with that name
  (\<open>Read\<close>); a line that \<^verbatim>\<open>json.Unmarshal\<close> rejects emits no event; and in each case
  the lines before and after it give the events they give without it.
\<close>

theorem Claude_lines:
  "(Unmarshal_ClaudeStreamEvent line = Some event \<and> eventType event = ''result'' \<longrightarrow>
      ClaudeLoop (before @ [line] @ after) = ClaudeLoop before @ ClaudeLoop after)
   \<and> ClaudeLoop (before @ [''{\"type\":\"result\"}''] @ after) = ClaudeLoop before @ ClaudeLoop after
   \<and> (Unmarshal_ClaudeStreamEvent line = Some event \<and> eventType event = ''tool_use''
        \<and> eventName event \<noteq> [] \<longrightarrow>
      ClaudeLoop (before @ [line] @ after) =
        ClaudeLoop before @ [ToolUse (eventName event) []] @ ClaudeLoop after)
   \<and> ClaudeLoop (before @ [''{\"type\":\"tool_use\",\"name\":\"Read\"}''] @ after) =
       ClaudeLoop before @ [ToolUse ''Read'' []] @ ClaudeLoop after
   \<and> (Unmarshal_ClaudeStreamEvent line = None \<longrightarrow>
        ClaudeLoop (before @ [line] @ after) = ClaudeLoop before @ ClaudeLoop after)"
proof (intro conjI impI)
  assume a: "Unmarshal_ClaudeStreamEvent line = Some event \<and> eventType event = ''result''"
  then have "line \<noteq> []" using Unmarshal_Claude_empty by auto
  with a show "ClaudeLoop (before @ [line] @ after) = ClaudeLoop before @ ClaudeLoop after"
    by (simp add: ClaudeLoop_append ClaudeEvents_def)
next
  show "ClaudeLoop (before @ [''{\"type\":\"result\"}''] @ after) = ClaudeLoop before @ ClaudeLoop after"
    by (simp add: ClaudeLoop_append Unmarshal_Claude_result ClaudeEvents_def ClaudeStreamEvent_zero_def)
next
  assume a: "Unmarshal_ClaudeStreamEvent line = Some event \<and> eventType event = ''tool_use''
        \<and> eventName event \<noteq> []"
  then have "line \<noteq> []" using Unmarshal_Claude_empty by auto
  with a show "ClaudeLoop (before @ [line] @ after) =
        ClaudeLoop before @ [ToolUse (eventName event) []] @ ClaudeLoop after"
    by (simp add: ClaudeLoop_append ClaudeEvents_def)
next
  show "ClaudeLoop (before @ [''{\"type\":\"tool_use\",\"name\":\"Read\"}''] @ after) =
       ClaudeLoop before @ [ToolUse ''Read'' []] @ ClaudeLoop after"
    by (simp add: ClaudeLoop_append Unmarshal_Claude_tool_use ClaudeEvents_def ClaudeStreamEvent_zero_def)
next
  assume "Unmarshal_ClaudeStreamEvent line = None"
  then show "ClaudeLoop (before @ [line] @ after) = ClaudeLoop before @ ClaudeLoop after"
    by (simp add: ClaudeLoop_append)
qed

text \<open>The witness is the input of \<^verbatim>\<open>TestClaudeAdapter_Process_MalformedJSON\<close>.\<close>

theorem Claude_lines_witness:
  "Unmarshal_ClaudeStreamEvent ''{invalid json here}'' = None
   \<and> ClaudeLoop [''{\"type\":\"tool_use\",\"name\":\"Read\"}'', ''{invalid json here}'',
        ''{\"type\":\"assistant\",\"message\":{\"content\":[{\"type\":\"text\",\"text\":\"Success\"}]}}''] =
       [ToolUse ''Read'' [], AssistantMessage ''Success'']
   \<and> ClaudeLoop [''{\"type\":\"result\"}''] = []"
  using Claude_lines [of "''{invalid json here}''" ClaudeStreamEvent_zero
      "[''{\"type\":\"tool_use\",\"name\":\"Read\"}'']"
      "[''{\"type\":\"assistant\",\"message\":{\"content\":[{\"type\":\"text\",\"text\":\"Success\"}]}}'']"]
    Claude_lines [of "''{\"type\":\"result\"}''" "ClaudeStreamEvent_zero\<lparr>eventType := ''result''\<rparr>" "[]" "[]"]
    Claude_lines [of "''{\"type\":\"tool_use\",\"name\":\"Read\"}''"
      "ClaudeStreamEvent_zero\<lparr>eventType := ''tool_use'', eventName := ''Read''\<rparr>" "[]" "[]"]
  by (simp add: Unmarshal_Claude_invalid Unmarshal_Claude_tool_use Unmarshal_Claude_assistant
      Unmarshal_Claude_result ClaudeEvents_def ClaudeStreamEvent_zero_def)

subsection \<open>The adapter of dialect B\<close>

text \<open>
  Claim C4, as stated, fails on the empty line: it is not JSON, and the adapter of dialect
  B (\<^verbatim>\<open>CodexAdapter\<close>) skips it instead of emitting it as an \<open>AssistantMessage\<close>.
\<close>

theorem Codex_empty_line_counterexample:
  "Unmarshal_CodexEvent [] = None
   \<and> CodexLoop [[]] \<noteq> [AssistantMessage []]
   \<and> CodexAdapter_Process \<lparr>data = ''\<newline>'', readErr = None\<rparr> = ([], None)"
  by (simp add: Unmarshal_CodexEvent_empty CodexAdapter_Process_def Scanner_def dropCR_def MaxScanTokenSize_def)

text \<open>
  Claim C4, amended. For every line given to the adapter of dialect B: if
  \<^verbatim>\<open>json.Unmarshal\<close> decodes it and the decoded \<open>error\<close> field is not empty, exactly
  one \<open>Error\<close> event carrying that field is emitted for the line, and no \<open>ToolUse\<close> or
  \<open>AssistantMessage\<close>; if the line is not empty and \<^verbatim>\<open>json.Unmarshal\<close> rejects it, the
  line is emitted as it is as exactly one \<open>AssistantMessage\<close>; an empty line emits
  nothing.
\<close>

theorem Codex_lines:
  "(Unmarshal_CodexEvent line = Some event \<and> codexError event \<noteq> [] \<longrightarrow>
      CodexLoop (before @ [line] @ after) = CodexLoop before @ [Error (codexError event)] @ CodexLoop after)
   \<and> (line \<noteq> [] \<and> Unmarshal_CodexEvent line = None \<longrightarrow>
      CodexLoop (before @ [line] @ after) = CodexLoop before @ [AssistantMessage line] @ CodexLoop after)
   \<and> CodexLoop (before @ [[]] @ after) = CodexLoop before @ CodexLoop after"
proof (intro conjI impI)
  assume a: "Unmarshal_CodexEvent line = Some event \<and> codexError event \<noteq> []"
  then have "line \<noteq> []" using Unmarshal_CodexEvent_empty by auto
  with a show "CodexLoop (before @ [line] @ after) = CodexLoop before @ [Error (codexError event)] @ CodexLoop after"
    by (simp add: CodexLoop_append CodexEvents_def)
next
  assume "line \<noteq> [] \<and> Unmarshal_CodexEvent line = None"
  then show "CodexLoop (before @ [line] @ after) = CodexLoop before @ [AssistantMessage line] @ CodexLoop after"
    by (simp add: CodexLoop_append)
next
  show "CodexLoop (before @ [[]] @ after) = CodexLoop before @ CodexLoop after"
    by (simp add: CodexLoop_append)
qed

theorem Codex_lines_witness:
  "Unmarshal_CodexEvent ''{\"type\":\"error\",\"error\":\"X\",\"content\":\"Y\"}'' =
     Some (CodexEvent_zero\<lparr>codexType := ''error'', codexError := ''X'', codexContent := ''Y''\<rparr>)
   \<and> CodexLoop [''{\"type\":\"error\",\"error\":\"X\",\"content\":\"Y\"}''] = [Error ''X'']
   \<and> Unmarshal_CodexEvent ''not json'' = None
   \<and> CodexLoop [''not json''] = [AssistantMessage ''not json'']"
  using Codex_lines [of "''{\"type\":\"error\",\"error\":\"X\",\"content\":\"Y\"}''"
        "CodexEvent_zero\<lparr>codexType := ''error'', codexError := ''X'', codexContent := ''Y''\<rparr>" "[]" "[]"]
    Codex_lines [of "''not json''" CodexEvent_zero "[]" "[]"]
  by (simp add: Unmarshal_Codex_error Unmarshal_Codex_not_json CodexEvent_zero_def)

text \<open>The input of \<^verbatim>\<open>TestCodexAdapter_Process_MalformedJSON_FallbackToPlainText\<close>.\<close>

lemma Codex_fallback_to_plain_text:
  "CodexLoop [''{\"type\":\"tool\",\"tool\":\"Read\"}'', ''This is plain text, not JSON'',
      ''{\"type\":\"message\",\"content\":\"Done\"}''] =
     [ToolUse ''Read'' [], AssistantMessage ''This is plain text, not JSON'', AssistantMessage ''Done'']"
  by (simp add: Unmarshal_Codex_tool Unmarshal_Codex_plain_text Unmarshal_Codex_done
      CodexEvents_def CodexEvent_zero_def)

subsection \<open>Empty lines\<close>

text \<open>
  For an input made of lines that end with a newline, an added empty line changes nothing
  in what the two structured adapters emit.
\<close>

lemma structured_adapters_skip_empty_line:
  assumes lines: "\<forall>l \<in> set (before @ after).
          CHR 0x0A \<notin> set l \<and> length l < MaxScanTokenSize \<and> (l = [] \<or> last l \<noteq> CHR 0x0D)"
  shows "ClaudeAdapter_Process \<lparr>data = joinLines (before @ [[]] @ after), readErr = None\<rparr> =
          ClaudeAdapter_Process \<lparr>data = joinLines (before @ after), readErr = None\<rparr>
        \<and> CodexAdapter_Process \<lparr>data = joinLines (before @ [[]] @ after), readErr = None\<rparr> =
          CodexAdapter_Process \<lparr>data = joinLines (before @ after), readErr = None\<rparr>"
proof -
  have more: "\<forall>l \<in> set (before @ [[]] @ after).
        CHR 0x0A \<notin> set l \<and> length l < MaxScanTokenSize \<and> (l = [] \<or> last l \<noteq> CHR 0x0D)"
    using lines by (auto simp add: MaxScanTokenSize_def)
  have without: "Scanner \<lparr>data = joinLines (before @ after), readErr = None\<rparr> = (before @ after, None)"
    by (rule Scanner_joinLines [OF lines])
  have with_empty: "Scanner \<lparr>data = joinLines (before @ [[]] @ after), readErr = None\<rparr> =
      (before @ [[]] @ after, None)"
    by (rule Scanner_joinLines [OF more])
  show ?thesis
    unfolding ClaudeAdapter_Process_def CodexAdapter_Process_def without with_empty
    by (simp add: ClaudeLoop_append CodexLoop_append)
qed

text \<open>
  Claim C10. Each adapter runs its loop on the lines that the scanner delivers. An empty
  line makes the adapters of dialect A and of dialect B emit no event and go on with the
  next line, while the passthrough adapter emits an \<open>AssistantMessage\<close> with the empty
  text for it.
\<close>

theorem empty_lines:
  "fst (ClaudeAdapter_Process reader) = ClaudeLoop (fst (Scanner reader))
   \<and> fst (CodexAdapter_Process reader) = CodexLoop (fst (Scanner reader))
   \<and> fst (PassThroughAdapter_Process reader) = PassThroughLoop (fst (Scanner reader))
   \<and> ClaudeLoop (before @ [[]] @ after) = ClaudeLoop before @ ClaudeLoop after
   \<and> CodexLoop (before @ [[]] @ after) = CodexLoop before @ CodexLoop after
   \<and> PassThroughLoop (before @ [[]] @ after) =
       PassThroughLoop before @ [AssistantMessage []] @ PassThroughLoop after"
  by (simp add: Process_events ClaudeLoop_append CodexLoop_append PassThroughLoop_map)

text \<open>The witness is the input of \<^verbatim>\<open>TestCodexAdapter_Process_EmptyLines\<close>.\<close>

theorem empty_lines_witness:
  "CodexAdapter_Process \<lparr>data = ''{\"type\":\"tool\",\"tool\":\"Read\"}\<newline>\<newline>{\"type\":\"message\",\"content\":\"Done\"}'', readErr = None\<rparr>
     = ([ToolUse ''Read'' [], AssistantMessage ''Done''], None)
   \<and> PassThroughAdapter_Process \<lparr>data = ''{\"type\":\"tool\",\"tool\":\"Read\"}\<newline>\<newline>{\"type\":\"message\",\"content\":\"Done\"}'', readErr = None\<rparr>
     = ([AssistantMessage ''{\"type\":\"tool\",\"tool\":\"Read\"}'', AssistantMessage [],
         AssistantMessage ''{\"type\":\"message\",\"content\":\"Done\"}''], None)"
  using empty_lines [of "\<lparr>data = [], readErr = None\<rparr>"
      "[''{\"type\":\"tool\",\"tool\":\"Read\"}'']" "[''{\"type\":\"message\",\"content\":\"Done\"}'']"]
  by (simp add: CodexAdapter_Process_def PassThroughAdapter_Process_def Scanner_codex_empty_line_test
      Unmarshal_Codex_tool Unmarshal_Codex_done CodexEvents_def CodexEvent_zero_def)

section \<open>Properties of the Process Supervisor\<close>

lemma Fields_claude: "Fields ''claude'' = [''claude'']"
  by (simp add: Fields_def spaceWidth_def spaceRunes_def)

lemma Scanner_empty: "Scanner \<lparr>data = [], readErr = None\<rparr> = ([], None)"
  by (simp add: Scanner_def)

lemma selectAdapter_empty: "selectAdapter ag \<lparr>data = [], readErr = None\<rparr> = ([], None)"
  by (simp add: selectAdapter_def ClaudeAdapter_Process_def CodexAdapter_Process_def
      PassThroughAdapter_Process_def Scanner_empty)

lemma GetChangedFiles_ok: "snd (GetChangedFiles (Inr out)) = None"
  by (simp add: GetChangedFiles_def)

lemma RunIteration_quiet:
  assumes "BuildCommand ag p m au \<noteq> []"
  shows "RunIteration ag p m [] au (quietEnv b a st) =
     \<lparr>commitsResult = a - b, errResult = None, eventsShown = [],
      actionsDone = [GitCountCommits,
        StartAgent (BuildCommand ag p m au) (if PromptStyle ag = PromptStylePipe then Some p else None),
        GitCountCommits, GitStatus]\<rparr>"
proof -
  obtain counts where g: "GetChangedFiles (Inr st) = (counts, None)"
    using GetChangedFiles_ok [of st] by (cases "GetChangedFiles (Inr st)") simp
  show ?thesis
    using assms
    by (simp add: RunIteration_def quietEnv_def Let_def MultiReader_def selectAdapter_empty
        measureProgress_def runVerification_def g)
qed

lemma BuildCommand_claude_nonempty: "BuildCommand claude p m au \<noteq> []"
  by (simp add: BuildCommand_def Let_def claude_def Fields_claude)

lemma GetChangedFiles_err: "snd (GetChangedFiles st) = None \<longleftrightarrow> (\<exists>out. st = Inr out)"
  by (cases st) (simp_all add: GetChangedFiles_def)

text \<open>
  The verification command is run exactly when one is configured and every earlier step
  of the pass succeeds.
\<close>

lemma verification_runs_iff:
  "RunVerify v \<in> set (actionsDone (RunIteration ag p m verify au env)) \<longleftrightarrow>
     v = verify \<and> verify \<noteq> [] \<and> (\<exists>before. countBefore env = Inr before)
     \<and> BuildCommand ag p m au \<noteq> []
     \<and> stdoutPipeErr env = None \<and> stderrPipeErr env = None \<and> startErr env = None
     \<and> snd (selectAdapter ag (MultiReader (stdout env) (stderr env))) = None
     \<and> (\<exists>after. countAfter env = Inr after) \<and> (\<exists>out. status env = Inr out)"
  using GetChangedFiles_err [of "status env"]
  by (auto simp add: RunIteration_def measureProgress_def runVerification_def failed_def Let_def
      split: sum.splits option.splits prod.splits if_splits)

text \<open>
  Claim C8. When the verification command is run in a pass and fails, \<open>RunIteration\<close>
  returns an error (\<open>verification failed\<close>) together with the number of commits already
  computed from the commit counts before and after the agent ran; a verification command
  is run only if one is configured.
\<close>

theorem verification_failure_keeps_commits:
  assumes "RunVerify verify \<in> set (actionsDone (RunIteration ag p m verify au env))"
    and "verifyErr env = Some e"
  shows "verify \<noteq> []
       \<and> errResult (RunIteration ag p m verify au env) = Some (''verification failed: '' @ e)
       \<and> (\<exists>before after. countBefore env = Inr before \<and> countAfter env = Inr after
            \<and> commitsResult (RunIteration ag p m verify au env) = after - before)"
  using assms
  by (auto simp add: RunIteration_def measureProgress_def runVerification_def failed_def Let_def
      split: sum.splits option.splits prod.splits if_splits)

theorem verification_failure_keeps_commits_witness:
  "RunVerify ''go test ./...'' \<in> set (actionsDone (RunIteration claude ''Fix the failing tests'' [] ''go test ./...'' True failedVerifyEnv))
   \<and> errResult (RunIteration claude ''Fix the failing tests'' [] ''go test ./...'' True failedVerifyEnv) =
       Some ''verification failed: exit status 1''
   \<and> commitsResult (RunIteration claude ''Fix the failing tests'' [] ''go test ./...'' True failedVerifyEnv) = 1"
proof -
  have ran: "RunVerify ''go test ./...'' \<in> set (actionsDone (RunIteration claude ''Fix the failing tests'' [] ''go test ./...'' True failedVerifyEnv))"
    using BuildCommand_claude_nonempty [of "''Fix the failing tests''" "[]" True]
    by (simp add: RunIteration_def failedVerifyEnv_def quietEnv_def Let_def MultiReader_def
        selectAdapter_empty measureProgress_def runVerification_def GetChangedFiles_def)
  have failing: "verifyErr failedVerifyEnv = Some ''exit status 1''"
    by (simp add: failedVerifyEnv_def)
  show ?thesis
    using ran verification_failure_keeps_commits [OF ran failing]
    by (simp add: failedVerifyEnv_def quietEnv_def)
qed

section \<open>Properties of the Loop Controller\<close>

lemma HasChanges_default:
  "(case HasChanges c of (b, None) \<Rightarrow> b | (b, Some e) \<Rightarrow> False) = fst (HasChanges c)"
  by (cases c) (simp_all add: HasChanges_def)

lemma RunLoop_step:
  assumes "\<not> cancelled p" "\<not> (maxIters r > 0 \<and> Iterations (metrics r) \<ge> maxIters r)"
  shows "RunLoop r results (p # passes) =
     (let res = pass_result r p; made = commitsResult res; dirty = fst (HasChanges (changes p));
          r1 = counted r res
      in if \<not> dirty \<and> made = 0 then exit ExitSuccess r1 (results @ [res])
         else if dirty \<and> made = 0 then
           (if iterationsWithoutCommit r + 1 \<ge> StuckThreshold (config r)
            then exit ExitStuck (r1\<lparr>iterationsWithoutCommit := iterationsWithoutCommit r + 1\<rparr>) (results @ [res])
            else if singleRun r
            then exit ExitSuccess (r1\<lparr>iterationsWithoutCommit := iterationsWithoutCommit r + 1\<rparr>) (results @ [res])
            else RunLoop (r1\<lparr>iterationsWithoutCommit := iterationsWithoutCommit r + 1\<rparr>) (results @ [res]) passes)
         else if made > 0 then
           (if singleRun r then exit ExitSuccess (r1\<lparr>iterationsWithoutCommit := 0\<rparr>) (results @ [res])
            else RunLoop (r1\<lparr>iterationsWithoutCommit := 0\<rparr>) (results @ [res]) passes)
         else
           (if singleRun r then exit ExitSuccess r1 (results @ [res])
            else RunLoop r1 (results @ [res]) passes))"
proof -
  have cap: "(maxIters r > 0 \<and> Iterations (metrics r) \<ge> maxIters r) = False"
    using assms(2) by simp
  show ?thesis
    using assms(1)
    by (simp add: cap Let_def HasChanges_default pass_result_def counted_def)
qed

lemma HasChanges_dirty: "HasChanges (Inr '' M main.go\<newline>'') = (True, None)"
  by code_simp

lemma HasChanges_clean: "HasChanges (Inr []) = (False, None)"
  by code_simp

lemma New_fields:
  "singleRun (New cfg pr ag chooChoo mx) = (\<not> chooChoo)"
  "config (New cfg pr ag chooChoo mx) = cfg"
  "agent (New cfg pr ag chooChoo mx) = ag"
  "prompt (New cfg pr ag chooChoo mx) = pr"
  "maxIters (New cfg pr ag chooChoo mx) = mx"
  "iterationsWithoutCommit (New cfg pr ag chooChoo mx) = 0"
  "Iterations (metrics (New cfg pr ag chooChoo mx)) = 0"
  "Commits (metrics (New cfg pr ag chooChoo mx)) = 0"
  by (simp_all add: New_def NewMetrics_def)

text \<open>
  Claim C1, as stated, fails for the stuck threshold 1, which \<^verbatim>\<open>validateRunConfig\<close>
  accepts: a single-pass run whose iteration makes no commit and leaves uncommitted
  changes ends with \<open>Stuck\<close>, since the stuck test comes before the single-run test.
\<close>

theorem single_pass_stuck_counterexample:
  "validateRunConfig_threshold (Defaults\<lparr>StuckThreshold := 1\<rparr>)
   \<and> singleRun (New (Defaults\<lparr>StuckThreshold := 1\<rparr>) ''Fix the failing tests'' claude False 0)
   \<and> map_option fst (Run (New (Defaults\<lparr>StuckThreshold := 1\<rparr>) ''Fix the failing tests'' claude False 0)
        [quietPass 3 3 '' M main.go\<newline>'']) = Some ExitStuck"
proof -
  have "\<not> cancelled (quietPass 3 3 '' M main.go\<newline>'')" by (simp add: quietPass_def)
  then show ?thesis
    by (simp add: Run_def RunLoop_step New_def NewMetrics_def Defaults_def Let_def pass_result_def
        validateRunConfig_threshold_def
        counted_def quietPass_def RunIteration_quiet BuildCommand_claude_nonempty HasChanges_dirty exit_def)
qed

text \<open>
  Claim C1, amended. A single-pass run that is not interrupted before its first turn
  executes exactly one iteration and then ends. It ends with \<open>Stuck\<close> when that iteration
  made no commit, left uncommitted changes, and the stuck threshold is at most 1; in
  every other case it ends with \<open>Success\<close>.
\<close>

theorem single_pass_run:
  assumes "\<not> cancelled p"
  shows "\<exists>r'. Run (New cfg promptText ag False maxIterations) (p # passes) =
           Some ((if commitsResult (RunIteration ag promptText (Model cfg) (Verify cfg) False (iteration p)) = 0
                     \<and> fst (HasChanges (changes p)) \<and> StuckThreshold cfg \<le> 1
                  then ExitStuck else ExitSuccess),
                 r', [RunIteration ag promptText (Model cfg) (Verify cfg) False (iteration p)])
         \<and> Iterations (metrics r') = 1
         \<and> ExitReason (metrics r') =
             ExitReasonString (if commitsResult (RunIteration ag promptText (Model cfg) (Verify cfg) False (iteration p)) = 0
                     \<and> fst (HasChanges (changes p)) \<and> StuckThreshold cfg \<le> 1
                  then ExitStuck else ExitSuccess)"
proof -
  let ?r = "New cfg promptText ag False maxIterations"
  have cap: "\<not> (maxIters ?r > 0 \<and> Iterations (metrics ?r) \<ge> maxIters ?r)"
    by (simp add: New_fields)
  show ?thesis
    unfolding Run_def RunLoop_step [OF assms cap]
    by (simp add: Let_def New_fields pass_result_def counted_def exit_def)
qed

theorem single_pass_run_witness:
  "\<exists>r'. Run (New Defaults ''Fix the failing tests'' claude False 0) [quietPass 3 3 '' M main.go\<newline>''] =
          Some (ExitSuccess, r', [RunIteration claude ''Fix the failing tests'' [] [] False (quietEnv 3 3 '' M main.go\<newline>'')])
        \<and> Iterations (metrics r') = 1
        \<and> ExitReason (metrics r') = ExitReasonString ExitSuccess"
  using single_pass_run [of "quietPass 3 3 '' M main.go\<newline>''" Defaults "''Fix the failing tests''" claude 0 "[]"]
  by (simp add: quietPass_def Defaults_def)

text \<open>
  Claim C2. A looping run with stuck threshold 2 whose iterations 1 and 2 both take
  place (no interrupt is seen before them and the iteration cap allows two iterations)
  and both report no commit while uncommitted changes are present ends with \<open>Stuck\<close>
  right after iteration 2: exactly two iterations are run, whatever could follow.
\<close>

theorem stuck_after_two_iterations:
  assumes "StuckThreshold cfg = 2"
    and "\<not> cancelled p1" and "\<not> cancelled p2"
    and "maxIterations \<le> 0 \<or> 2 \<le> maxIterations"
    and "commitsResult (RunIteration ag promptText (Model cfg) (Verify cfg) True (iteration p1)) = 0"
    and "fst (HasChanges (changes p1))"
    and "commitsResult (RunIteration ag promptText (Model cfg) (Verify cfg) True (iteration p2)) = 0"
    and "fst (HasChanges (changes p2))"
  shows "\<exists>r'. Run (New cfg promptText ag True maxIterations) (p1 # p2 # passes) =
           Some (ExitStuck, r',
                 [RunIteration ag promptText (Model cfg) (Verify cfg) True (iteration p1),
                  RunIteration ag promptText (Model cfg) (Verify cfg) True (iteration p2)])
         \<and> Iterations (metrics r') = 2
         \<and> ExitReason (metrics r') = ExitReasonString ExitStuck"
proof -
  let ?r = "New cfg promptText ag True maxIterations"
  let ?res1 = "RunIteration ag promptText (Model cfg) (Verify cfg) True (iteration p1)"
  let ?r1 = "(counted ?r ?res1)\<lparr>iterationsWithoutCommit := 1\<rparr>"
  have cap1: "\<not> (maxIters ?r > 0 \<and> Iterations (metrics ?r) \<ge> maxIters ?r)"
    by (simp add: New_fields)
  have step1: "RunLoop ?r [] (p1 # p2 # passes) = RunLoop ?r1 [?res1] (p2 # passes)"
    unfolding RunLoop_step [OF assms(2) cap1]
    using assms(1,5,6) by (simp add: Let_def New_fields pass_result_def)
  have cap2: "\<not> (maxIters ?r1 > 0 \<and> Iterations (metrics ?r1) \<ge> maxIters ?r1)"
    using assms(4) by (auto simp add: New_fields counted_def)
  show ?thesis
    unfolding Run_def step1 RunLoop_step [OF assms(3) cap2]
    using assms(1,7,8) by (simp add: Let_def New_fields pass_result_def counted_def exit_def)
qed

theorem stuck_after_two_iterations_witness:
  "\<exists>r'. Run (New (Defaults\<lparr>StuckThreshold := 2\<rparr>) ''Fix the failing tests'' claude True 0)
            [quietPass 3 3 '' M main.go\<newline>'', quietPass 3 3 '' M main.go\<newline>'', quietPass 3 4 []] =
          Some (ExitStuck, r',
                [RunIteration claude ''Fix the failing tests'' [] [] True (quietEnv 3 3 '' M main.go\<newline>''),
                 RunIteration claude ''Fix the failing tests'' [] [] True (quietEnv 3 3 '' M main.go\<newline>'')])
        \<and> Iterations (metrics r') = 2
        \<and> ExitReason (metrics r') = ExitReasonString ExitStuck"
  using stuck_after_two_iterations [of "Defaults\<lparr>StuckThreshold := 2\<rparr>"
      "quietPass 3 3 '' M main.go\<newline>''" "quietPass 3 3 '' M main.go\<newline>''" 0 claude
      "''Fix the failing tests''" "[quietPass 3 4 []]"]
  by (simp add: quietPass_def Defaults_def RunIteration_quiet BuildCommand_claude_nonempty HasChanges_dirty)

text \<open>
  Claim C3, as stated, fails: nothing treats a negative commit count as an anomaly. With
  5 commits before and 3 after, the pass returns \<open>-2\<close> and no error, the loop goes on, and
  the run ends with the commit total \<open>-2\<close>.
\<close>

theorem negative_commits_counterexample:
  "commitsResult (RunIteration claude ''Fix the failing tests'' [] [] True (quietEnv 5 3 [])) = - 2
   \<and> errResult (RunIteration claude ''Fix the failing tests'' [] [] True (quietEnv 5 3 [])) = None
   \<and> map_option (\<lambda>(code, r, results). (code, Iterations (metrics r), Commits (metrics r), map errResult results))
        (Run (New Defaults ''Fix the failing tests'' claude True 0) [quietPass 5 3 [], quietPass 3 3 []])
      = Some (ExitSuccess, 2, - 2, [None, None])"
proof -
  let ?r = "New Defaults ''Fix the failing tests'' claude True 0"
  have c: "\<not> cancelled (quietPass b a st)" for b a st by (simp add: quietPass_def)
  have cap1: "\<not> (maxIters ?r > 0 \<and> Iterations (metrics ?r) \<ge> maxIters ?r)"
    by (simp add: New_fields)
  have cap2: "\<not> (maxIters (counted ?r res) > 0 \<and> Iterations (metrics (counted ?r res)) \<ge> maxIters (counted ?r res))" for res
    by (simp add: New_fields counted_def)
  show ?thesis
    unfolding Run_def RunLoop_step [OF c cap1]
    by (simp add: Let_def New_fields pass_result_def quietPass_def Defaults_def RunIteration_quiet
        BuildCommand_claude_nonempty HasChanges_clean RunLoop_step [OF c cap2, unfolded quietPass_def]
        counted_def exit_def)
qed

lemma RunIteration_negative_computed:
  assumes "commitsResult (RunIteration ag pr m v au env) < 0"
  shows "\<exists>before after. countBefore env = Inr before \<and> countAfter env = Inr after
           \<and> commitsResult (RunIteration ag pr m v au env) = after - before \<and> after < before"
  using assms
  by (auto simp add: RunIteration_def measureProgress_def runVerification_def failed_def Let_def
      split: sum.splits option.splits prod.splits if_splits)

lemma RunIteration_error_independent_of_counts:
  "errResult (RunIteration ag pr m v au (env\<lparr>countBefore := Inr b, countAfter := Inr a\<rparr>)) =
   errResult (RunIteration ag pr m v au (env\<lparr>countBefore := Inr b', countAfter := Inr a'\<rparr>))"
  by (auto simp add: RunIteration_def measureProgress_def runVerification_def failed_def Let_def
      split: sum.splits option.splits prod.splits if_splits)

text \<open>
  Claim C3, amended. A negative number of commits made is accepted like any other
  value. It is the commit count after the pass minus the commit count before it, and
  the error of the pass, if any, is the same whatever the two counts are. The turn adds
  the value to the commit total of the run; as it is neither zero nor positive, the turn
  neither ends the run as complete or stuck nor changes the stuck counter, and the loop
  goes on with the next turn (a single-pass run ends with \<open>Success\<close>).
\<close>

theorem negative_commits_accepted:
  assumes "\<not> cancelled p" and "\<not> (maxIters r > 0 \<and> Iterations (metrics r) \<ge> maxIters r)"
    and "commitsResult (pass_result r p) < 0"
  shows "RunLoop r results (p # passes) =
           (if singleRun r then exit ExitSuccess (counted r (pass_result r p)) (results @ [pass_result r p])
            else RunLoop (counted r (pass_result r p)) (results @ [pass_result r p]) passes)
         \<and> Commits (metrics (counted r (pass_result r p))) = Commits (metrics r) + commitsResult (pass_result r p)
         \<and> iterationsWithoutCommit (counted r (pass_result r p)) = iterationsWithoutCommit r
         \<and> (\<exists>before after. countBefore (iteration p) = Inr before \<and> countAfter (iteration p) = Inr after
               \<and> commitsResult (pass_result r p) = after - before \<and> after < before
               \<and> errResult (pass_result r p) =
                  errResult (pass_result r (p\<lparr>iteration := (iteration p)\<lparr>countBefore := Inr 0, countAfter := Inr 0\<rparr>\<rparr>)))"
proof -
  have loop: "RunLoop r results (p # passes) =
           (if singleRun r then exit ExitSuccess (counted r (pass_result r p)) (results @ [pass_result r p])
            else RunLoop (counted r (pass_result r p)) (results @ [pass_result r p]) passes)"
    unfolding RunLoop_step [OF assms(1,2)]
    using assms(3) by (simp add: Let_def)
  obtain before after where counts: "countBefore (iteration p) = Inr before"
      "countAfter (iteration p) = Inr after"
      "commitsResult (pass_result r p) = after - before" "after < before"
    using RunIteration_negative_computed [of "agent r" "prompt r" "Model (config r)" "Verify (config r)"
        "\<not> singleRun r" "iteration p"] assms(3)
    by (auto simp add: pass_result_def)
  have same: "(iteration p)\<lparr>countBefore := Inr before, countAfter := Inr after\<rparr> = iteration p"
    using counts(1,2) by simp
  have err: "errResult (pass_result r p) =
      errResult (pass_result r (p\<lparr>iteration := (iteration p)\<lparr>countBefore := Inr 0, countAfter := Inr 0\<rparr>\<rparr>))"
    using RunIteration_error_independent_of_counts [where ag = "agent r" and pr = "prompt r"
        and m = "Model (config r)" and v = "Verify (config r)" and au = "\<not> singleRun r"
        and env = "iteration p" and b = before and a = after and b' = 0 and a' = 0]
    by (simp add: pass_result_def same)
  show ?thesis
    using loop counts err by (simp add: counted_def)
qed

theorem negative_commits_accepted_witness:
  "commitsResult (pass_result (New Defaults ''Fix the failing tests'' claude True 0) (quietPass 5 3 [])) = - 2
   \<and> errResult (pass_result (New Defaults ''Fix the failing tests'' claude True 0) (quietPass 5 3 [])) = None
   \<and> countBefore (iteration (quietPass 5 3 [])) = Inr 5
   \<and> countAfter (iteration (quietPass 5 3 [])) = Inr 3
   \<and> RunLoop (New Defaults ''Fix the failing tests'' claude True 0) [] [quietPass 5 3 [], quietPass 3 3 []] =
       RunLoop (counted (New Defaults ''Fix the failing tests'' claude True 0)
                  (pass_result (New Defaults ''Fix the failing tests'' claude True 0) (quietPass 5 3 [])))
         [pass_result (New Defaults ''Fix the failing tests'' claude True 0) (quietPass 5 3 [])]
         [quietPass 3 3 []]
   \<and> Commits (metrics (counted (New Defaults ''Fix the failing tests'' claude True 0)
         (pass_result (New Defaults ''Fix the failing tests'' claude True 0) (quietPass 5 3 [])))) = - 2"
proof -
  let ?r = "New Defaults ''Fix the failing tests'' claude True 0"
  have res: "pass_result ?r (quietPass 5 3 []) =
      \<lparr>commitsResult = - 2, errResult = None, eventsShown = [],
       actionsDone = [GitCountCommits, StartAgent (BuildCommand claude ''Fix the failing tests'' [] True) None,
         GitCountCommits, GitStatus]\<rparr>"
  proof -
    have style: "PromptStyle claude \<noteq> PromptStylePipe"
      by (simp add: claude_def PromptStylePipe_def PromptStyleStream_def)
    show ?thesis
      using style
      by (simp add: pass_result_def New_fields Defaults_def quietPass_def RunIteration_quiet
          BuildCommand_claude_nonempty)
  qed
  have c: "\<not> cancelled (quietPass 5 3 [])" by (simp add: quietPass_def)
  have cap: "\<not> (maxIters ?r > 0 \<and> Iterations (metrics ?r) \<ge> maxIters ?r)"
    by (simp add: New_fields)
  have neg: "commitsResult (pass_result ?r (quietPass 5 3 [])) < 0" by (simp add: res)
  have counts: "countBefore (iteration (quietPass 5 3 [])) = Inr 5
      \<and> countAfter (iteration (quietPass 5 3 [])) = Inr 3"
    by (simp add: quietPass_def quietEnv_def)
  show ?thesis
    using negative_commits_accepted [OF c cap neg, of "[]" "[quietPass 3 3 []]"] counts
    by (simp add: res New_fields)
qed

end
